theory Spec2Isabelle
  imports Complex_Main
begin

section \<open>Tensor values\<close>

text \<open>
  Tensor elements are floating-point numbers. They are modelled as exact reals extended
  with the IEEE special values: rounding, overflow and underflow are left out, the
  special values and the way they arise and propagate are kept. A zero is treated as
  \<open>+0\<close>: the sign of a zero only decides the sign of an infinity.
\<close>

datatype fl = Fin real | PInf | NInf | NaN

fun is_finite :: "fl \<Rightarrow> bool" where
  "is_finite (Fin x) = True"
| "is_finite _ = False"

fun fl_neg :: "fl \<Rightarrow> fl" where
  "fl_neg (Fin x) = Fin (- x)"
| "fl_neg PInf = NInf"
| "fl_neg NInf = PInf"
| "fl_neg NaN = NaN"

fun fl_add :: "fl \<Rightarrow> fl \<Rightarrow> fl" where
  "fl_add (Fin x) (Fin y) = Fin (x + y)"
| "fl_add NaN _ = NaN"
| "fl_add _ NaN = NaN"
| "fl_add PInf NInf = NaN"
| "fl_add NInf PInf = NaN"
| "fl_add PInf _ = PInf"
| "fl_add _ PInf = PInf"
| "fl_add NInf _ = NInf"
| "fl_add _ NInf = NInf"

definition fl_sub :: "fl \<Rightarrow> fl \<Rightarrow> fl" where
  "fl_sub a b = fl_add a (fl_neg b)"

fun fl_mul :: "fl \<Rightarrow> fl \<Rightarrow> fl" where
  "fl_mul (Fin x) (Fin y) = Fin (x * y)"
| "fl_mul NaN _ = NaN"
| "fl_mul _ NaN = NaN"
| "fl_mul (Fin x) PInf = (if x = 0 then NaN else if 0 < x then PInf else NInf)"
| "fl_mul (Fin x) NInf = (if x = 0 then NaN else if 0 < x then NInf else PInf)"
| "fl_mul PInf (Fin y) = (if y = 0 then NaN else if 0 < y then PInf else NInf)"
| "fl_mul NInf (Fin y) = (if y = 0 then NaN else if 0 < y then NInf else PInf)"
| "fl_mul PInf PInf = PInf"
| "fl_mul NInf NInf = PInf"
| "fl_mul PInf NInf = NInf"
| "fl_mul NInf PInf = NInf"

text \<open>Tensor division never raises: a zero divisor gives an infinity or NaN.\<close>

fun fl_div :: "fl \<Rightarrow> fl \<Rightarrow> fl" where
  "fl_div (Fin x) (Fin y) =
     (if y = 0 then (if x = 0 then NaN else if 0 < x then PInf else NInf)
      else Fin (x / y))"
| "fl_div NaN _ = NaN"
| "fl_div _ NaN = NaN"
| "fl_div (Fin x) PInf = Fin 0"
| "fl_div (Fin x) NInf = Fin 0"
| "fl_div PInf (Fin y) = (if 0 \<le> y then PInf else NInf)"
| "fl_div NInf (Fin y) = (if 0 \<le> y then NInf else PInf)"
| "fl_div _ _ = NaN"

fun fl_abs :: "fl \<Rightarrow> fl" where
  "fl_abs (Fin x) = Fin \<bar>x\<bar>"
| "fl_abs PInf = PInf"
| "fl_abs NInf = PInf"
| "fl_abs NaN = NaN"

fun fl_exp :: "fl \<Rightarrow> fl" where
  "fl_exp (Fin x) = Fin (exp x)"
| "fl_exp PInf = PInf"
| "fl_exp NInf = Fin 0"
| "fl_exp NaN = NaN"

definition fl_square :: "fl \<Rightarrow> fl" where
  "fl_square x = fl_mul x x"

fun fl_sum :: "fl list \<Rightarrow> fl" where
  "fl_sum [] = Fin 0"
| "fl_sum (x # xs) = fl_add x (fl_sum xs)"


section \<open>Tensors\<close>

text \<open>
  A tensor is its shape together with its elements, read by a multi-index. Only the
  elements at indices inside the shape are part of the tensor.
\<close>

record tensor =
  shape :: "nat list"
  elem :: "nat list \<Rightarrow> fl"



datatype error =
    ShapeError
  | KernelSizeError
  | PadError
  | UnfoldError
  | BroadcastError
  | ValueError
  | ZeroDivisionError

text \<open>
  The errors the filter's own checks raise, as opposed to the errors of the
  array library and of Python's arithmetic.
\<close>

fun is_validation_error :: "error \<Rightarrow> bool" where
  "is_validation_error ShapeError = True"
| "is_validation_error KernelSizeError = True"
| "is_validation_error ValueError = True"
| "is_validation_error _ = False"

subsection \<open>Element-wise operations and broadcasting\<close>

definition map_tensor :: "(fl \<Rightarrow> fl) \<Rightarrow> tensor \<Rightarrow> tensor" where
  "map_tensor f t = \<lparr>shape = shape t, elem = (\<lambda>idx. f (elem t idx))\<rparr>"

text \<open>
  Broadcasting of two shapes of the same rank (the filter only combines tensors of equal
  rank): sizes must agree or one of them must be 1.
\<close>

fun broadcast_shapes :: "nat list \<Rightarrow> nat list \<Rightarrow> nat list option" where
  "broadcast_shapes [] [] = Some []"
| "broadcast_shapes (m # ms) (n # ns) =
     (if m = n \<or> n = 1 then map_option ((#) m) (broadcast_shapes ms ns)
      else if m = 1 then map_option ((#) n) (broadcast_shapes ms ns)
      else None)"
| "broadcast_shapes _ _ = None"

definition expand_index :: "nat list \<Rightarrow> nat list \<Rightarrow> nat list" where
  "expand_index sh idx = map2 (\<lambda>n i. if n = 1 then 0 else i) sh idx"

definition binary_op :: "(fl \<Rightarrow> fl \<Rightarrow> fl) \<Rightarrow> tensor \<Rightarrow> tensor \<Rightarrow> error + tensor" where
  "binary_op f s t =
     (case broadcast_shapes (shape s) (shape t) of
        None \<Rightarrow> Inl BroadcastError
      | Some sh \<Rightarrow>
          Inr \<lparr>shape = sh,
               elem = (\<lambda>idx. f (elem s (expand_index (shape s) idx))
                               (elem t (expand_index (shape t) idx)))\<rparr>)"

subsection \<open>Reductions and reshapes\<close>

text \<open>\<open>t.sum(d, keepdim=True)\<close>\<close>

definition sum_keepdim :: "tensor \<Rightarrow> nat \<Rightarrow> tensor" where
  "sum_keepdim t d =
     \<lparr>shape = (shape t)[d := 1],
      elem = (\<lambda>idx. fl_sum (map (\<lambda>j. elem t (idx[d := j])) [0..<shape t ! d]))\<rparr>"

text \<open>\<open>t.sum(-1)\<close>\<close>

definition sum_last :: "tensor \<Rightarrow> tensor" where
  "sum_last t =
     \<lparr>shape = butlast (shape t),
      elem = (\<lambda>idx. fl_sum (map (\<lambda>k. elem t (idx @ [k])) [0..<last (shape t)]))\<rparr>"

text \<open>\<open>t.unsqueeze(-1)\<close>\<close>

definition unsqueeze_last :: "tensor \<Rightarrow> tensor" where
  "unsqueeze_last t = \<lparr>shape = shape t @ [1], elem = (\<lambda>idx. elem t (butlast idx))\<rparr>"

text \<open>\<open>t.flatten(-2)\<close>: the last two axes become one, in row-major order.\<close>

definition flatten_last2 :: "tensor \<Rightarrow> tensor" where
  "flatten_last2 t =
     (let sh = shape t; a = last (butlast sh); b = last sh in
      \<lparr>shape = butlast (butlast sh) @ [a * b],
       elem = (\<lambda>idx. elem t (butlast idx @ [last idx div b, last idx mod b]))\<rparr>)"

text \<open>
  \<open>t.unfold(d, size, 1)\<close>: all windows of the given size along axis \<open>d\<close>; the position
  inside the window is a new last axis. The array library rejects a window larger than
  the axis.
\<close>

definition unfold :: "tensor \<Rightarrow> nat \<Rightarrow> nat \<Rightarrow> error + tensor" where
  "unfold t d sz =
     (if shape t ! d < sz then Inl UnfoldError
      else Inr \<lparr>shape = (shape t)[d := shape t ! d - sz + 1] @ [sz],
                elem = (\<lambda>idx. elem t ((butlast idx)[d := butlast idx ! d + last idx]))\<rparr>)"

text \<open>\<open>s.view(-1, 1, 1, 1, 1)\<close> of a one-dimensional tensor.\<close>

definition view_batch :: "tensor \<Rightarrow> tensor" where
  "view_batch s = \<lparr>shape = [shape s ! 0, 1, 1, 1, 1], elem = (\<lambda>idx. elem s [idx ! 0])\<rparr>"

text \<open>
  \<open>g.view(-1, 1, 1, 1, k)\<close> of a tensor of shape \<open>(n, a, b)\<close> with \<open>a * b = k\<close>: the
  matrix of each batch element is read in row-major order.
\<close>

definition view_kernel :: "tensor \<Rightarrow> nat \<Rightarrow> tensor" where
  "view_kernel g k =
     (let b = shape g ! 2 in
      \<lparr>shape = [shape g ! 0, 1, 1, 1, k],
       elem = (\<lambda>idx. elem g [idx ! 0, (idx ! 4) div b, (idx ! 4) mod b])\<rparr>)"


section \<open>Border padding\<close>

text \<open>
  \<open>pad(input, (pl, pr, pt, pb), mode)\<close>, which the source imports from \<open>kornia.core\<close>
  and which is the padding function of the array library, on a tensor of shape
  \<open>(B, C, H, W)\<close>: the first pair extends the last axis, the second pair the axis before
  it. \<open>pad_source\<close> gives, for a position of the padded axis, the position of the
  original axis whose value it takes; \<open>None\<close> stands for the zero fill of the constant
  mode. Reflection needs a padding smaller than the axis, wrapping around one that is
  not larger, and replication a non-empty axis; an unknown mode is rejected.
\<close>

definition pad_axis_ok :: "string \<Rightarrow> nat \<Rightarrow> nat \<Rightarrow> nat \<Rightarrow> bool" where
  "pad_axis_ok mode n l r =
     (if mode = ''constant'' then True
      else if mode = ''reflect'' then l < n \<and> r < n
      else if mode = ''replicate'' then 0 < n
      else if mode = ''circular'' then l \<le> n \<and> r \<le> n
      else False)"

definition pad_source :: "string \<Rightarrow> nat \<Rightarrow> nat \<Rightarrow> nat \<Rightarrow> nat option" where
  "pad_source mode n l i =
     (if l \<le> i \<and> i < l + n then Some (i - l)
      else if mode = ''reflect'' then
        (if i < l then Some (l - i) else Some (2 * (n - 1) - (i - l)))
      else if mode = ''replicate'' then
        (if i < l then Some 0 else Some (n - 1))
      else if mode = ''circular'' then Some ((i + n - l) mod n)
      else None)"

definition pad :: "tensor \<Rightarrow> nat \<times> nat \<times> nat \<times> nat \<Rightarrow> string \<Rightarrow> error + tensor" where
  "pad t p mode =
     (case p of (pl, pr, pt, pb) \<Rightarrow>
        if length (shape t) \<noteq> 4 then Inl PadError
        else
          let h = shape t ! 2; w = shape t ! 3 in
          if \<not> (pad_axis_ok mode w pl pr \<and> pad_axis_ok mode h pt pb)
          then Inl PadError
          else
            Inr \<lparr>shape = [shape t ! 0, shape t ! 1, pt + h + pb, pl + w + pr],
                 elem = (\<lambda>idx.
                   case (pad_source mode h pt (idx ! 2), pad_source mode w pl (idx ! 3)) of
                     (Some y, Some x) \<Rightarrow> elem t [idx ! 0, idx ! 1, y, x]
                   | _ \<Rightarrow> Fin 0)\<rparr>)"


section \<open>Collaborators outside the source file\<close>

text \<open>
  Modelled from the spec: the shape check \<open>KORNIA_CHECK_SHAPE(x, names)\<close> is not part of
  the source file. The spec asks for a validation error when the image's rank is not 4;
  the check sees one tensor and a list of axis names, so it compares the rank of the
  tensor with the number of names.
\<close>

definition KORNIA_CHECK_SHAPE :: "nat list \<Rightarrow> string list \<Rightarrow> bool" where
  "KORNIA_CHECK_SHAPE sh names = (length sh = length names)"

datatype kernel_size = KInt int | KPair int int

text \<open>
  Modelled from the spec: \<open>_unpack_2d_ks\<close> is not part of the source file. The spec: a
  kernel size is a pair \<open>(kx, ky)\<close> of positive odd integers, a single integer stands
  for \<open>kx = ky\<close>, and a size with an even or non-positive component raises a
  validation error.
\<close>

definition unpack_2d_ks :: "kernel_size \<Rightarrow> error + nat \<times> nat" where
  "unpack_2d_ks ks =
     (let (kx, ky) = (case ks of KInt k \<Rightarrow> (k, k) | KPair a b \<Rightarrow> (a, b)) in
      if kx \<le> 0 \<or> ky \<le> 0 \<or> even kx \<or> even ky then Inl KernelSizeError
      else Inr (nat kx, nat ky))"

text \<open>
  Modelled from the spec: \<open>_compute_zero_padding\<close> is not part of the source file. The
  spec: \<open>pad_x = (kx - 1) / 2\<close> and \<open>pad_y = (ky - 1) / 2\<close>.
\<close>

definition compute_zero_padding :: "kernel_size \<Rightarrow> error + nat \<times> nat" where
  "compute_zero_padding ks =
     (case unpack_2d_ks ks of
        Inl e \<Rightarrow> Inl e
      | Inr (kx, ky) \<Rightarrow> Inr ((kx - 1) div 2, (ky - 1) div 2))"

text \<open>
  Modelled from the spec: \<open>get_gaussian_kernel2d\<close> is not part of the source file. The
  spec: a separable Gaussian kernel built from the kernel size and \<open>sigma_space\<close>, with
  non-negative weights that sum to 1 for each batch element. The matrix has one row per
  window row, in the order of the window extraction.
\<close>

definition gaussian :: "nat \<Rightarrow> real \<Rightarrow> nat \<Rightarrow> real" where
  "gaussian n sigma i = exp (- ((real i - real (n div 2))\<^sup>2) / (2 * sigma\<^sup>2))"

definition gaussian_kernel1d :: "nat \<Rightarrow> real \<Rightarrow> nat \<Rightarrow> real" where
  "gaussian_kernel1d n sigma i = gaussian n sigma i / (\<Sum>j<n. gaussian n sigma j)"

definition get_gaussian_kernel2d :: "nat \<times> nat \<Rightarrow> real \<times> real \<Rightarrow> tensor" where
  "get_gaussian_kernel2d ks sigma =
     (case (ks, sigma) of ((kx, ky), (sigma_x, sigma_y)) \<Rightarrow>
        \<lparr>shape = [1, ky, kx],
         elem = (\<lambda>idx. Fin (gaussian_kernel1d ky sigma_y (idx ! 1)
                             * gaussian_kernel1d kx sigma_x (idx ! 2)))\<rparr>)"


section \<open>The bilateral filter\<close>

datatype sigma_color = Scalar real | SigmaTensor tensor

text \<open>The array computations of the filter, in the order of the source.\<close>

datatype step =
    Pad | Unfold | Diff | ColorDistance | ColorKernel | SpaceKernel | Kernel | Aggregate

text \<open>Line 61: the windows of the padded image, flattened.\<close>

definition extract_windows :: "tensor \<Rightarrow> nat \<Rightarrow> nat \<Rightarrow> error + tensor" where
  "extract_windows padded kx ky =
     (case unfold padded 2 ky of
        Inl e \<Rightarrow> Inl e
      | Inr rows \<Rightarrow>
          (case unfold rows 3 kx of
             Inl e \<Rightarrow> Inl e
           | Inr windows \<Rightarrow> Inr (flatten_last2 windows)))"

text \<open>Lines 64 to 69: the squared color distance, or the rejection of the distance type.\<close>

definition color_distance_sq :: "string \<Rightarrow> tensor \<Rightarrow> error + tensor" where
  "color_distance_sq color_distance_type diff =
     (if color_distance_type = ''l1'' then
        Inr (map_tensor fl_square (sum_keepdim (map_tensor fl_abs diff) 1))
      else if color_distance_type = ''l2'' then
        Inr (sum_keepdim (map_tensor fl_square diff) 1)
      else Inl ValueError)"

text \<open>
  Line 70. For a Python number, \<open>-0.5 / sigma_color**2\<close> is Python arithmetic, where a
  zero divisor raises; for a tensor it is tensor arithmetic, followed by a broadcast
  product.
\<close>

definition color_kernel :: "sigma_color \<Rightarrow> tensor \<Rightarrow> error + tensor" where
  "color_kernel sigma_color dsq =
     (case sigma_color of
        Scalar s \<Rightarrow>
          if s * s = 0 then Inl ZeroDivisionError
          else Inr (map_tensor fl_exp (map_tensor (fl_mul (Fin (- (1 / 2) / (s * s)))) dsq))
      | SigmaTensor s \<Rightarrow>
          (case binary_op fl_mul
                  (map_tensor (fl_div (Fin (- (1 / 2)))) (map_tensor fl_square (view_batch s)))
                  dsq of
             Inl e \<Rightarrow> Inl e
           | Inr e \<Rightarrow> Inr (map_tensor fl_exp e)))"

text \<open>Line 76: the weighted sum of each window divided by the sum of its weights.\<close>

definition aggregate :: "tensor \<Rightarrow> tensor \<Rightarrow> error + tensor" where
  "aggregate unfolded kern =
     (case binary_op fl_mul unfolded kern of
        Inl e \<Rightarrow> Inl e
      | Inr weighted \<Rightarrow> binary_op fl_div (sum_last weighted) (sum_last kern))"

text \<open>
  \<open>KORNIA_CHECK_IS_TENSOR(input)\<close> holds by the type of \<open>input\<close>.
  The filter returns the array computations it has completed together with its
  result: the output tensor, or the error that ended the call. \<open>after done r k\<close> is one
  statement of the source: if \<open>r\<close> is an error the call ends there, with the
  computations \<open>done\<close> before it; otherwise the call goes on.
\<close>

definition after ::
  "step list \<Rightarrow> error + 'a \<Rightarrow> ('a \<Rightarrow> step list \<times> (error + tensor))
     \<Rightarrow> step list \<times> (error + tensor)" where
  "after done r k = (case r of Inl e \<Rightarrow> (done, Inl e) | Inr x \<Rightarrow> k x)"

definition check :: "bool \<Rightarrow> error + unit" where
  "check ok = (if ok then Inr () else Inl ShapeError)"

definition bilateral_blur ::
  "tensor \<Rightarrow> kernel_size \<Rightarrow> sigma_color \<Rightarrow> real \<times> real \<Rightarrow> string \<Rightarrow> string
     \<Rightarrow> step list \<times> (error + tensor)" where
  "bilateral_blur input kernel_size sigma_color sigma_space border_type color_distance_type =
     after [] (check (KORNIA_CHECK_SHAPE (shape input) [''B'', ''C'', ''H'', ''W''])) (\<lambda>_.
     after [] (case sigma_color of
                 SigmaTensor s \<Rightarrow> check (KORNIA_CHECK_SHAPE (shape s) [''B''])
               | Scalar _ \<Rightarrow> Inr ()) (\<lambda>_.
     after [] (unpack_2d_ks kernel_size) (\<lambda>(kx, ky).
     after [] (compute_zero_padding kernel_size) (\<lambda>(pad_x, pad_y).
     after [] (pad input (pad_x, pad_x, pad_y, pad_y) border_type) (\<lambda>padded.
     after [Pad] (extract_windows padded kx ky) (\<lambda>unfolded.
     after [Pad, Unfold] (binary_op fl_sub unfolded (unsqueeze_last input)) (\<lambda>diff.
     after [Pad, Unfold, Diff] (color_distance_sq color_distance_type diff) (\<lambda>dsq.
     after [Pad, Unfold, Diff, ColorDistance] (color_kernel sigma_color dsq) (\<lambda>ckernel.
     after [Pad, Unfold, Diff, ColorDistance, ColorKernel, SpaceKernel]
       (binary_op fl_mul
          (view_kernel (get_gaussian_kernel2d (kx, ky) sigma_space) (kx * ky)) ckernel) (\<lambda>kern.
     after [Pad, Unfold, Diff, ColorDistance, ColorKernel, SpaceKernel, Kernel]
       (aggregate unfolded kern) (\<lambda>out.
     ([Pad, Unfold, Diff, ColorDistance, ColorKernel, SpaceKernel, Kernel, Aggregate],
      Inr out))))))))))))"

text \<open>The module: the five configuration fields, and \<open>forward\<close>.\<close>

record BilateralBlur =
  kernel_size :: kernel_size
  sigma_color :: sigma_color
  sigma_space :: "real \<times> real"
  border_type :: string
  color_distance_type :: string

definition init ::
  "kernel_size \<Rightarrow> sigma_color \<Rightarrow> real \<times> real \<Rightarrow> string \<Rightarrow> string \<Rightarrow> BilateralBlur" where
  "init ks sc ss bt cdt =
     \<lparr>kernel_size = ks, sigma_color = sc, sigma_space = ss, border_type = bt,
      color_distance_type = cdt\<rparr>"

definition forward :: "BilateralBlur \<Rightarrow> tensor \<Rightarrow> step list \<times> (error + tensor)" where
  "forward self input =
     bilateral_blur input (kernel_size self) (sigma_color self) (sigma_space self)
       (border_type self) (color_distance_type self)"


section \<open>Reading the filter element by element\<close>

text \<open>
  The value the tensor program computes at one position, written with the operations
  on single elements. The lemma \<open>pipeline\<close> below proves that the program computes them.
\<close>

definition coefficient :: "sigma_color \<Rightarrow> nat \<Rightarrow> fl" where
  "coefficient sc b =
     (case sc of
        Scalar s \<Rightarrow> Fin (- (1 / 2) / (s * s))
      | SigmaTensor t \<Rightarrow> fl_div (Fin (- (1 / 2))) (fl_square (elem t [b])))"

definition distance_at ::
  "string \<Rightarrow> nat \<Rightarrow> tensor \<Rightarrow> tensor \<Rightarrow> nat \<Rightarrow> nat \<Rightarrow> nat \<Rightarrow> nat \<Rightarrow> fl" where
  "distance_at cdt C u x b h w k =
     (if cdt = ''l1'' then
        fl_square (fl_sum (map (\<lambda>c. fl_abs (fl_sub (elem u [b, c, h, w, k]) (elem x [b, c, h, w]))) [0..<C]))
      else
        fl_sum (map (\<lambda>c. fl_square (fl_sub (elem u [b, c, h, w, k]) (elem x [b, c, h, w]))) [0..<C]))"

definition spatial_weight :: "nat \<times> nat \<Rightarrow> real \<times> real \<Rightarrow> nat \<Rightarrow> real" where
  "spatial_weight ks ss k =
     gaussian_kernel1d (snd ks) (snd ss) (k div fst ks) * gaussian_kernel1d (fst ks) (fst ss) (k mod fst ks)"

definition weight_at ::
  "sigma_color \<Rightarrow> nat \<times> nat \<Rightarrow> real \<times> real \<Rightarrow> string \<Rightarrow> nat \<Rightarrow> tensor \<Rightarrow> tensor
     \<Rightarrow> nat \<Rightarrow> nat \<Rightarrow> nat \<Rightarrow> nat \<Rightarrow> fl" where
  "weight_at sc ks ss cdt C u x b h w k =
     fl_mul (Fin (spatial_weight ks ss k))
       (fl_exp (fl_mul (coefficient sc b) (distance_at cdt C u x b h w k)))"

definition output_at ::
  "sigma_color \<Rightarrow> nat \<times> nat \<Rightarrow> real \<times> real \<Rightarrow> string \<Rightarrow> nat \<Rightarrow> tensor \<Rightarrow> tensor
     \<Rightarrow> nat \<Rightarrow> nat \<Rightarrow> nat \<Rightarrow> nat \<Rightarrow> fl" where
  "output_at sc ks ss cdt C u x b c h w =
     fl_div
       (fl_sum (map (\<lambda>k. fl_mul (elem u [b, c, h, w, k]) (weight_at sc ks ss cdt C u x b h w k))
                  [0..<snd ks * fst ks]))
       (fl_sum (map (\<lambda>k. weight_at sc ks ss cdt C u x b h w k) [0..<snd ks * fst ks]))"

section \<open>The filter in the words of the specification\<close>

text \<open>The real value of a finite element.\<close>

fun fl_real :: "fl \<Rightarrow> real" where
  "fl_real (Fin x) = x"
| "fl_real _ = 0"

text \<open>
  The specification, over the reals: for the per-channel differences \<open>d\<close> of one window
  sample, the distance is \<open>(\<Sum>c. |d c|)\<^sup>2\<close> for L1 and \<open>\<Sum>c. (d c)\<^sup>2\<close> for L2; the color
  weight is \<open>exp (-0.5 * distance / sigma\<^sup>2)\<close>; the output is the weighted sum of the
  samples divided by the sum of the weights.
\<close>

definition spec_distance :: "string \<Rightarrow> nat \<Rightarrow> (nat \<Rightarrow> real) \<Rightarrow> real" where
  "spec_distance cdt C d =
     (if cdt = ''l1'' then (\<Sum>c<C. \<bar>d c\<bar>)\<^sup>2 else (\<Sum>c<C. (d c)\<^sup>2))"

definition spec_color_weight :: "real \<Rightarrow> real \<Rightarrow> real" where
  "spec_color_weight distance sigma = exp (- (1 / 2) * distance / sigma\<^sup>2)"

definition spec_output :: "nat \<Rightarrow> (nat \<Rightarrow> real) \<Rightarrow> (nat \<Rightarrow> real) \<Rightarrow> real" where
  "spec_output K sample weight = (\<Sum>k<K. sample k * weight k) / (\<Sum>k<K. weight k)"

text \<open>The value of a pixel, and of sample \<open>k\<close> of the window of a pixel in the padded image.\<close>

definition pixel :: "tensor \<Rightarrow> nat \<Rightarrow> nat \<Rightarrow> nat \<Rightarrow> nat \<Rightarrow> real" where
  "pixel input b c h w = fl_real (elem input [b, c, h, w])"

definition neighborhood ::
  "string \<Rightarrow> nat \<times> nat \<Rightarrow> tensor \<Rightarrow> nat \<Rightarrow> nat \<Rightarrow> nat \<Rightarrow> nat \<Rightarrow> nat \<Rightarrow> real" where
  "neighborhood bt ks input b c h w k =
     (case (pad_source bt (shape input ! 2) ((snd ks - 1) div 2) (h + k div fst ks),
            pad_source bt (shape input ! 3) ((fst ks - 1) div 2) (w + k mod fst ks)) of
        (Some y, Some x) \<Rightarrow> pixel input b c y x
      | _ \<Rightarrow> 0)"

text \<open>The standard deviation of the color weight for batch element \<open>b\<close>.\<close>

definition sigma_at :: "sigma_color \<Rightarrow> nat \<Rightarrow> real" where
  "sigma_at sc b = (case sc of Scalar s \<Rightarrow> s | SigmaTensor t \<Rightarrow> fl_real (elem t [b]))"


section \<open>Inputs\<close>

text \<open>\<open>full(shape, value)\<close>: the tensor whose elements all have one value.\<close>

definition full :: "nat list \<Rightarrow> real \<Rightarrow> tensor" where
  "full sh v = \<lparr>shape = sh, elem = (\<lambda>_. Fin v)\<rparr>"

text \<open>The tensor of the given shape whose element at an index is the value of \<open>f\<close> there.\<close>

definition from_fun :: "nat list \<Rightarrow> (nat list \<Rightarrow> real) \<Rightarrow> tensor" where
  "from_fun sh f = \<lparr>shape = sh, elem = (\<lambda>idx. Fin (f idx))\<rparr>"

text \<open>A kernel size whose components are positive and odd.\<close>

definition valid_kernel_size :: "kernel_size \<Rightarrow> bool" where
  "valid_kernel_size ks =
     (case ks of
        KInt k \<Rightarrow> 0 < k \<and> odd k
      | KPair a b \<Rightarrow> 0 < a \<and> odd a \<and> 0 < b \<and> odd b)"

text \<open>A \<open>sigma_color\<close> that is a number, or a tensor with one axis.\<close>

definition sigma_rank_ok :: "sigma_color \<Rightarrow> bool" where
  "sigma_rank_ok sc = (case sc of Scalar s \<Rightarrow> True | SigmaTensor t \<Rightarrow> length (shape t) = 1)"

text \<open>
  The array library accepts the padding of an image of height and width \<open>hw\<close> for the
  kernel size \<open>ks = (kx, ky)\<close> in the given border mode.
\<close>

definition padding_accepted :: "string \<Rightarrow> nat \<times> nat \<Rightarrow> nat \<times> nat \<Rightarrow> bool" where
  "padding_accepted bt hw ks =
     (pad_axis_ok bt (snd hw) ((fst ks - 1) div 2) ((fst ks - 1) div 2)
      \<and> pad_axis_ok bt (fst hw) ((snd ks - 1) div 2) ((snd ks - 1) div 2))"

text \<open>The array computations of a call that returns.\<close>

definition full_trace :: "step list" where
  "full_trace = [Pad, Unfold, Diff, ColorDistance, ColorKernel, SpaceKernel, Kernel, Aggregate]"

text \<open>The kernel size as the pair \<open>(kx, ky)\<close>.\<close>

definition ks_pair :: "kernel_size \<Rightarrow> nat \<times> nat" where
  "ks_pair ks = (case ks of KInt k \<Rightarrow> (nat k, nat k) | KPair a b \<Rightarrow> (nat a, nat b))"

text \<open>An image of rank 4 whose elements are finite numbers.\<close>

definition finite_image :: "tensor \<Rightarrow> bool" where
  "finite_image input =
     (\<forall>b c h w. b < shape input ! 0 \<and> c < shape input ! 1 \<and> h < shape input ! 2 \<and> w < shape input ! 3
        \<longrightarrow> is_finite (elem input [b, c, h, w]))"

text \<open>
  A valid \<open>sigma_color\<close> for a batch of size \<open>B\<close>: a positive number, or a vector of
  \<open>B\<close> positive numbers.
\<close>

definition valid_sigma_color :: "nat \<Rightarrow> sigma_color \<Rightarrow> bool" where
  "valid_sigma_color B sc =
     (case sc of
        Scalar s \<Rightarrow> 0 < s
      | SigmaTensor t \<Rightarrow>
          shape t = [B] \<and> (\<forall>b<B. is_finite (elem t [b]) \<and> 0 < fl_real (elem t [b])))"

text \<open>
  A valid call: a finite image of rank 4 with non-empty spatial axes, a valid kernel size,
  valid standard deviations, a border mode whose padding the array library accepts for
  the image, and a distance type \<open>l1\<close> or \<open>l2\<close>.
\<close>

definition valid_call ::
  "tensor \<Rightarrow> kernel_size \<Rightarrow> sigma_color \<Rightarrow> real \<times> real \<Rightarrow> string \<Rightarrow> string \<Rightarrow> bool" where
  "valid_call input ks sc ss bt cdt =
     (length (shape input) = 4 \<and> 0 < shape input ! 2 \<and> 0 < shape input ! 3
      \<and> finite_image input
      \<and> valid_kernel_size ks
      \<and> valid_sigma_color (shape input ! 0) sc
      \<and> 0 < fst ss \<and> 0 < snd ss
      \<and> padding_accepted bt (shape input ! 2, shape input ! 3) (ks_pair ks)
      \<and> (cdt = ''l1'' \<or> cdt = ''l2''))"



section \<open>The stages of the filter\<close>

text \<open>
  Each stage of a call on an image of shape \<open>(B, C, H, W)\<close>: the shape of its result and
  the value of each of its elements.
\<close>

lemma pad_Inr:
  assumes "shape t = [B, C, H, W]" "pad_axis_ok mode W px px" "pad_axis_ok mode H py py"
  shows "\<exists>p. pad t (px, px, py, py) mode = Inr p \<and> shape p = [B, C, py + H + py, px + W + px]
     \<and> (\<forall>b c y x. elem p [b, c, y, x] =
          (case (pad_source mode H py y, pad_source mode W px x) of
             (Some y', Some x') \<Rightarrow> elem t [b, c, y', x'] | _ \<Rightarrow> Fin 0))"
  using assms by (simp add: pad_def split: option.split)

lemma extract_windows_Inr:
  assumes "shape p = [B, C, H + ky - 1, W + kx - 1]" "0 < H" "0 < W" "0 < kx" "0 < ky"
  shows "\<exists>u. extract_windows p kx ky = Inr u \<and> shape u = [B, C, H, W, ky * kx]
     \<and> (\<forall>b c h w k. elem u [b, c, h, w, k] = elem p [b, c, h + k div kx, w + k mod kx])"
  using assms by (auto simp add: extract_windows_def unfold_def flatten_last2_def Let_def)

lemma unpack_2d_ks_Inr:
  assumes "unpack_2d_ks ks = Inr (kx, ky)"
  shows "odd kx" "odd ky" "0 < kx" "0 < ky"
    "compute_zero_padding ks = Inr ((kx - 1) div 2, (ky - 1) div 2)"
  using assms
  by (auto simp add: unpack_2d_ks_def compute_zero_padding_def Let_def even_nat_iff
      split: kernel_size.splits if_splits)

lemma odd_pad_total: "odd (k::nat) \<Longrightarrow> (k - 1) div 2 + n + (k - 1) div 2 = n + k - 1"
  by (auto elim!: oddE)

lemma binary_op_same_prefix:
  assumes "shape u = [B, C, H, W, K]" "shape t = [B, C, H, W]"
  shows "\<exists>d. binary_op f u (unsqueeze_last t) = Inr d \<and> shape d = [B, C, H, W, K]
     \<and> (\<forall>b c h w k. b < B \<longrightarrow> c < C \<longrightarrow> h < H \<longrightarrow> w < W \<longrightarrow> k < K \<longrightarrow>
           elem d [b, c, h, w, k] = f (elem u [b, c, h, w, k]) (elem t [b, c, h, w]))"
  using assms by (auto simp add: binary_op_def unsqueeze_last_def expand_index_def)

lemma front_end:
  assumes sh: "shape input = [B, C, H, W]"
    and ks: "unpack_2d_ks ks = Inr (kx, ky)"
    and okx: "pad_axis_ok bt W ((kx - 1) div 2) ((kx - 1) div 2)"
    and oky: "pad_axis_ok bt H ((ky - 1) div 2) ((ky - 1) div 2)"
    and pos: "0 < H" "0 < W"
  shows "\<exists>padded unfolded diff.
      pad input ((kx - 1) div 2, (kx - 1) div 2, (ky - 1) div 2, (ky - 1) div 2) bt = Inr padded
    \<and> extract_windows padded kx ky = Inr unfolded
    \<and> binary_op fl_sub unfolded (unsqueeze_last input) = Inr diff
    \<and> shape unfolded = [B, C, H, W, ky * kx]
    \<and> shape diff = [B, C, H, W, ky * kx]
    \<and> (\<forall>b c h w k. elem unfolded [b, c, h, w, k] =
          (case (pad_source bt H ((ky - 1) div 2) (h + k div kx),
                 pad_source bt W ((kx - 1) div 2) (w + k mod kx)) of
             (Some y, Some x) \<Rightarrow> elem input [b, c, y, x] | _ \<Rightarrow> Fin 0))
    \<and> (\<forall>b c h w k. b < B \<longrightarrow> c < C \<longrightarrow> h < H \<longrightarrow> w < W \<longrightarrow> k < ky * kx \<longrightarrow>
          elem diff [b, c, h, w, k] = fl_sub (elem unfolded [b, c, h, w, k]) (elem input [b, c, h, w]))"
proof -
  note k = unpack_2d_ks_Inr [OF ks]
  obtain padded where p: "pad input ((kx - 1) div 2, (kx - 1) div 2, (ky - 1) div 2, (ky - 1) div 2) bt = Inr padded"
    "shape padded = [B, C, (ky - 1) div 2 + H + (ky - 1) div 2, (kx - 1) div 2 + W + (kx - 1) div 2]"
    "\<And>b c y x. elem padded [b, c, y, x] =
          (case (pad_source bt H ((ky - 1) div 2) y, pad_source bt W ((kx - 1) div 2) x) of
             (Some y', Some x') \<Rightarrow> elem input [b, c, y', x'] | _ \<Rightarrow> Fin 0)"
    using pad_Inr [OF sh okx oky] by blast
  have p2: "shape padded = [B, C, H + ky - 1, W + kx - 1]"
    using p(2) odd_pad_total [OF k(1), of W] odd_pad_total [OF k(2), of H] by simp
  obtain unfolded where u: "extract_windows padded kx ky = Inr unfolded"
    "shape unfolded = [B, C, H, W, ky * kx]"
    "\<And>b c h w k. elem unfolded [b, c, h, w, k] = elem padded [b, c, h + k div kx, w + k mod kx]"
    using extract_windows_Inr [OF p2 pos k(3,4)] by blast
  obtain diff where d: "binary_op fl_sub unfolded (unsqueeze_last input) = Inr diff"
    "shape diff = [B, C, H, W, ky * kx]"
    "\<And>b c h w k. b < B \<Longrightarrow> c < C \<Longrightarrow> h < H \<Longrightarrow> w < W \<Longrightarrow> k < ky * kx \<Longrightarrow>
       elem diff [b, c, h, w, k] = fl_sub (elem unfolded [b, c, h, w, k]) (elem input [b, c, h, w])"
    using binary_op_same_prefix [OF u(2) sh, of fl_sub] by blast
  show ?thesis
    apply (rule exI [of _ padded], rule exI [of _ unfolded], rule exI [of _ diff])
    using p(1) u(1,2) d(1,2) by (simp add: u(3) p(3) d(3))
qed


section \<open>Broadcasting at indices inside the shape\<close>

lemma expand1: "i < n \<Longrightarrow> (if n = Suc 0 then 0 else i) = i"
  by auto

lemma map_upt_cong:
  "m = n \<Longrightarrow> (\<And>k. k < n \<Longrightarrow> f k = g k) \<Longrightarrow> map f [0..<m] = map g [0..<n]"
  by simp


lemma broadcast_same:
  "broadcast_shapes (n # ms) (n # ns) = map_option ((#) n) (broadcast_shapes ms ns)"
  by simp

lemma broadcast_one_left:
  "broadcast_shapes (Suc 0 # ms) (n # ns) = map_option ((#) n) (broadcast_shapes ms ns)"
  by auto

lemma broadcast_one_right:
  "broadcast_shapes (m # ms) (Suc 0 # ns) = map_option ((#) m) (broadcast_shapes ms ns)"
  by simp

lemmas broadcast_simps = broadcast_same broadcast_one_left broadcast_one_right

lemma expand_index_Cons:
  "expand_index (n # sh) (i # idx) = (if n = Suc 0 then 0 else i) # expand_index sh idx"
  "expand_index [] idx = []"
  by (simp_all add: expand_index_def)


section \<open>Distances, weights and the weighted average\<close>

lemma color_distance_sq_Inr:
  assumes "shape d = [B, C, H, W, K]" "cdt = ''l1'' \<or> cdt = ''l2''"
  shows "\<exists>q. color_distance_sq cdt d = Inr q \<and> shape q = [B, 1, H, W, K]
     \<and> (\<forall>b h w k. elem q [b, 0, h, w, k] =
          (if cdt = ''l1'' then fl_square (fl_sum (map (\<lambda>c. fl_abs (elem d [b, c, h, w, k])) [0..<C]))
           else fl_sum (map (\<lambda>c. fl_square (elem d [b, c, h, w, k])) [0..<C])))"
  using assms by (auto simp add: color_distance_sq_def map_tensor_def sum_keepdim_def)


lemma color_kernel_scalar:
  assumes "s \<noteq> 0"
  shows "\<exists>e. color_kernel (Scalar s) q = Inr e \<and> shape e = shape q
     \<and> (\<forall>idx. elem e idx = fl_exp (fl_mul (Fin (- (1 / 2) / (s * s))) (elem q idx)))"
  using assms by (simp add: color_kernel_def map_tensor_def)


lemma color_kernel_tensor:
  assumes "shape t = [B]" "shape q = [B, 1, H, W, K]"
  shows "\<exists>e. color_kernel (SigmaTensor t) q = Inr e \<and> shape e = [B, 1, H, W, K]
     \<and> (\<forall>b h w k. b < B \<longrightarrow> h < H \<longrightarrow> w < W \<longrightarrow> k < K \<longrightarrow> elem e [b, 0, h, w, k] =
           fl_exp (fl_mul (fl_div (Fin (- (1 / 2))) (fl_square (elem t [b]))) (elem q [b, 0, h, w, k])))"
  using assms
  by (simp add: color_kernel_def map_tensor_def binary_op_def view_batch_def
        broadcast_simps expand_index_Cons expand1 del: broadcast_shapes.simps(2))

lemma space_kernel_mul:
  assumes "shape e = [Bk, 1, H, W, ky * kx]"
  shows "\<exists>kn. binary_op fl_mul (view_kernel (get_gaussian_kernel2d (kx, ky) ss) (kx * ky)) e = Inr kn
     \<and> shape kn = [Bk, 1, H, W, ky * kx]
     \<and> (\<forall>b h w k. b < Bk \<longrightarrow> h < H \<longrightarrow> w < W \<longrightarrow> k < ky * kx \<longrightarrow> elem kn [b, 0, h, w, k] =
           fl_mul (Fin (gaussian_kernel1d ky (snd ss) (k div kx) * gaussian_kernel1d kx (fst ss) (k mod kx)))
                  (elem e [b, 0, h, w, k]))"
  using assms
  by (cases ss) (simp add: binary_op_def view_kernel_def get_gaussian_kernel2d_def
        broadcast_simps expand_index_Cons expand1 mult.commute [of kx ky] del: broadcast_shapes.simps(2))

lemma aggregate_Inr:
  assumes "shape u = [B, C, H, W, K]" "shape kn = [B, 1, H, W, K]"
  shows "\<exists>out. aggregate u kn = Inr out \<and> shape out = [B, C, H, W]
     \<and> (\<forall>b c h w. b < B \<longrightarrow> c < C \<longrightarrow> h < H \<longrightarrow> w < W \<longrightarrow> elem out [b, c, h, w] =
           fl_div (fl_sum (map (\<lambda>k. fl_mul (elem u [b, c, h, w, k]) (elem kn [b, 0, h, w, k])) [0..<K]))
                  (fl_sum (map (\<lambda>k. elem kn [b, 0, h, w, k]) [0..<K])))"
  using assms
  by (simp add: aggregate_def binary_op_def sum_last_def
        broadcast_simps expand_index_Cons expand1 del: broadcast_shapes.simps(2) cong: map_upt_cong)


lemma color_kernel_valid:
  assumes "shape q = [B, 1, H, W, K]"
    and "case sc of Scalar s \<Rightarrow> s \<noteq> 0 | SigmaTensor t \<Rightarrow> shape t = [B]"
  shows "\<exists>e. color_kernel sc q = Inr e \<and> shape e = [B, 1, H, W, K]
     \<and> (\<forall>b h w k. b < B \<longrightarrow> h < H \<longrightarrow> w < W \<longrightarrow> k < K \<longrightarrow> elem e [b, 0, h, w, k] =
           fl_exp (fl_mul (coefficient sc b) (elem q [b, 0, h, w, k])))"
proof (cases sc)
  case (Scalar s)
  then show ?thesis
    using assms color_kernel_scalar [of s q] by (auto simp add: coefficient_def)
next
  case (SigmaTensor t)
  then show ?thesis
    using assms color_kernel_tensor [of t B q H W K] by (simp add: coefficient_def)
qed


section \<open>A call that returns\<close>

text \<open>
  For inputs that pass every check, the call performs all its array computations and
  returns the tensor of the values \<open>output_at\<close>.
\<close>

lemma pipeline:
  assumes sh: "shape input = [B, C, H, W]"
    and ks: "unpack_2d_ks ks = Inr (kx, ky)"
    and okx: "pad_axis_ok bt W ((kx - 1) div 2) ((kx - 1) div 2)"
    and oky: "pad_axis_ok bt H ((ky - 1) div 2) ((ky - 1) div 2)"
    and pos: "0 < H" "0 < W"
    and cdt: "cdt = ''l1'' \<or> cdt = ''l2''"
    and sc: "case sc of Scalar s \<Rightarrow> s \<noteq> 0 | SigmaTensor t \<Rightarrow> shape t = [B]"
  shows "\<exists>padded unfolded out.
      pad input ((kx - 1) div 2, (kx - 1) div 2, (ky - 1) div 2, (ky - 1) div 2) bt = Inr padded
    \<and> extract_windows padded kx ky = Inr unfolded
    \<and> bilateral_blur input ks sc ss bt cdt = (full_trace, Inr out)
    \<and> shape unfolded = [B, C, H, W, ky * kx]
    \<and> shape out = [B, C, H, W]
    \<and> (\<forall>b c h w k. elem unfolded [b, c, h, w, k] =
          (case (pad_source bt H ((ky - 1) div 2) (h + k div kx),
                 pad_source bt W ((kx - 1) div 2) (w + k mod kx)) of
             (Some y, Some x) \<Rightarrow> elem input [b, c, y, x] | _ \<Rightarrow> Fin 0))
    \<and> (\<forall>b c h w. b < B \<longrightarrow> c < C \<longrightarrow> h < H \<longrightarrow> w < W \<longrightarrow>
          elem out [b, c, h, w] = output_at sc (kx, ky) ss cdt C unfolded input b c h w)"
proof -
  let ?K = "ky * kx"
  obtain padded unfolded diff where
    p: "pad input ((kx - 1) div 2, (kx - 1) div 2, (ky - 1) div 2, (ky - 1) div 2) bt = Inr padded"
    and u: "extract_windows padded kx ky = Inr unfolded" "shape unfolded = [B, C, H, W, ?K]"
    and d: "binary_op fl_sub unfolded (unsqueeze_last input) = Inr diff" "shape diff = [B, C, H, W, ?K]"
    and ue: "\<forall>b c h w k. elem unfolded [b, c, h, w, k] =
          (case (pad_source bt H ((ky - 1) div 2) (h + k div kx),
                 pad_source bt W ((kx - 1) div 2) (w + k mod kx)) of
             (Some y, Some x) \<Rightarrow> elem input [b, c, y, x] | _ \<Rightarrow> Fin 0)"
    and de: "\<And>b c h w k. b < B \<Longrightarrow> c < C \<Longrightarrow> h < H \<Longrightarrow> w < W \<Longrightarrow> k < ?K \<Longrightarrow>
          elem diff [b, c, h, w, k] = fl_sub (elem unfolded [b, c, h, w, k]) (elem input [b, c, h, w])"
    using front_end [OF sh ks okx oky pos] by blast
  obtain q where q: "color_distance_sq cdt diff = Inr q" "shape q = [B, 1, H, W, ?K]"
    and qe: "\<And>b h w k. elem q [b, 0, h, w, k] =
          (if cdt = ''l1'' then fl_square (fl_sum (map (\<lambda>c. fl_abs (elem diff [b, c, h, w, k])) [0..<C]))
           else fl_sum (map (\<lambda>c. fl_square (elem diff [b, c, h, w, k])) [0..<C]))"
    using color_distance_sq_Inr [OF d(2) cdt] by blast
  obtain e where e: "color_kernel sc q = Inr e" "shape e = [B, 1, H, W, ?K]"
    and ee: "\<And>b h w k. b < B \<Longrightarrow> h < H \<Longrightarrow> w < W \<Longrightarrow> k < ?K \<Longrightarrow> elem e [b, 0, h, w, k] =
           fl_exp (fl_mul (coefficient sc b) (elem q [b, 0, h, w, k]))"
    using color_kernel_valid [OF q(2) sc] by blast
  obtain kn where kn: "binary_op fl_mul (view_kernel (get_gaussian_kernel2d (kx, ky) ss) (kx * ky)) e = Inr kn"
    "shape kn = [B, 1, H, W, ?K]"
    and kne: "\<And>b h w k. b < B \<Longrightarrow> h < H \<Longrightarrow> w < W \<Longrightarrow> k < ?K \<Longrightarrow> elem kn [b, 0, h, w, k] =
           fl_mul (Fin (gaussian_kernel1d ky (snd ss) (k div kx) * gaussian_kernel1d kx (fst ss) (k mod kx)))
                  (elem e [b, 0, h, w, k])"
    using space_kernel_mul [OF e(2), of ss] by blast
  obtain out where out: "aggregate unfolded kn = Inr out" "shape out = [B, C, H, W]"
    and oe: "\<And>b c h w. b < B \<Longrightarrow> c < C \<Longrightarrow> h < H \<Longrightarrow> w < W \<Longrightarrow> elem out [b, c, h, w] =
           fl_div (fl_sum (map (\<lambda>k. fl_mul (elem unfolded [b, c, h, w, k]) (elem kn [b, 0, h, w, k])) [0..<?K]))
                  (fl_sum (map (\<lambda>k. elem kn [b, 0, h, w, k]) [0..<?K]))"
    using aggregate_Inr [OF u(2) kn(2)] by blast
  have w: "elem kn [b, 0, h, w, k] = weight_at sc (kx, ky) ss cdt C unfolded input b h w k"
    if "b < B" "h < H" "w < W" "k < ?K" for b h w k
    using that
    by (simp add: kne ee qe de weight_at_def distance_at_def spatial_weight_def cong: map_upt_cong)
  have res: "bilateral_blur input ks sc ss bt cdt = (full_trace, Inr out)"
    using sh sc ks unpack_2d_ks_Inr(5) [OF ks] p u(1) d(1) q(1) e(1) kn(1) out(1)
    by (cases sc)
      (simp_all add: bilateral_blur_def after_def check_def KORNIA_CHECK_SHAPE_def full_trace_def)
  have val: "elem out [b, c, h, w] = output_at sc (kx, ky) ss cdt C unfolded input b c h w"
    if "b < B" "c < C" "h < H" "w < W" for b c h w
    using that by (simp add: oe w output_at_def cong: map_upt_cong)
  show ?thesis
    apply (rule exI [of _ padded], rule exI [of _ unfolded], rule exI [of _ out])
    using p u res out(2) ue val by simp
qed


section \<open>Calls that end in an error\<close>

lemma blur_sigma_shape_error:
  assumes "length (shape input) = 4" "length (shape t) \<noteq> 1"
  shows "bilateral_blur input ks (SigmaTensor t) ss bt cdt = ([], Inl ShapeError)"
  using assms by (simp add: bilateral_blur_def after_def check_def KORNIA_CHECK_SHAPE_def)

lemma unpack_2d_ks_Inl: "unpack_2d_ks ks = Inl e \<Longrightarrow> e = KernelSizeError"
  by (auto simp add: unpack_2d_ks_def Let_def split: kernel_size.splits if_splits prod.splits)

lemma blur_kernel_size_error:
  assumes "unpack_2d_ks ks = Inl e"
  shows "bilateral_blur input ks sc ss bt cdt = ([], Inl ShapeError)
       \<or> bilateral_blur input ks sc ss bt cdt = ([], Inl KernelSizeError)"
  using assms unpack_2d_ks_Inl [OF assms]
  by (simp add: bilateral_blur_def after_def check_def KORNIA_CHECK_SHAPE_def
      split: sigma_color.splits)

lemma blur_pad_error:
  assumes sh: "shape input = [B, C, H, W]"
    and sc: "case sc of Scalar s \<Rightarrow> True | SigmaTensor t \<Rightarrow> length (shape t) = 1"
    and ks: "unpack_2d_ks ks = Inr (kx, ky)"
    and bad: "\<not> (pad_axis_ok bt W ((kx - 1) div 2) ((kx - 1) div 2)
               \<and> pad_axis_ok bt H ((ky - 1) div 2) ((ky - 1) div 2))"
  shows "bilateral_blur input ks sc ss bt cdt = ([], Inl PadError)"
proof -
  have "pad input ((kx - 1) div 2, (kx - 1) div 2, (ky - 1) div 2, (ky - 1) div 2) bt = Inl PadError"
    using sh bad by (auto simp add: pad_def)
  then show ?thesis
    using sh sc ks unpack_2d_ks_Inr(5) [OF ks]
    by (cases sc)
      (simp_all add: bilateral_blur_def after_def check_def KORNIA_CHECK_SHAPE_def)
qed

lemma blur_unfold_error:
  assumes sh: "shape input = [B, C, H, W]"
    and sc: "case sc of Scalar s \<Rightarrow> True | SigmaTensor t \<Rightarrow> length (shape t) = 1"
    and ks: "unpack_2d_ks ks = Inr (kx, ky)"
    and okx: "pad_axis_ok bt W ((kx - 1) div 2) ((kx - 1) div 2)"
    and oky: "pad_axis_ok bt H ((ky - 1) div 2) ((ky - 1) div 2)"
    and empty: "H = 0 \<or> W = 0"
  shows "bilateral_blur input ks sc ss bt cdt = ([Pad], Inl UnfoldError)"
proof -
  note k = unpack_2d_ks_Inr [OF ks]
  obtain padded where p: "pad input ((kx - 1) div 2, (kx - 1) div 2, (ky - 1) div 2, (ky - 1) div 2) bt = Inr padded"
    "shape padded = [B, C, (ky - 1) div 2 + H + (ky - 1) div 2, (kx - 1) div 2 + W + (kx - 1) div 2]"
    using pad_Inr [OF sh okx oky] by blast
  have p2: "shape padded = [B, C, H + ky - 1, W + kx - 1]"
    using p(2) odd_pad_total [OF k(1), of W] odd_pad_total [OF k(2), of H] by simp
  have "extract_windows padded kx ky = Inl UnfoldError"
    using p2 empty k(3,4) by (auto simp add: extract_windows_def unfold_def)
  then show ?thesis
    using sh sc ks k(5) p(1)
    by (cases sc)
      (simp_all add: bilateral_blur_def after_def check_def KORNIA_CHECK_SHAPE_def)
qed

lemma blur_value_error:
  assumes sh: "shape input = [B, C, H, W]"
    and sc: "case sc of Scalar s \<Rightarrow> True | SigmaTensor t \<Rightarrow> length (shape t) = 1"
    and ks: "unpack_2d_ks ks = Inr (kx, ky)"
    and okx: "pad_axis_ok bt W ((kx - 1) div 2) ((kx - 1) div 2)"
    and oky: "pad_axis_ok bt H ((ky - 1) div 2) ((ky - 1) div 2)"
    and pos: "0 < H" "0 < W"
    and cdt: "cdt \<noteq> ''l1''" "cdt \<noteq> ''l2''"
  shows "bilateral_blur input ks sc ss bt cdt = ([Pad, Unfold, Diff], Inl ValueError)"
proof -
  obtain padded unfolded diff where
    p: "pad input ((kx - 1) div 2, (kx - 1) div 2, (ky - 1) div 2, (ky - 1) div 2) bt = Inr padded"
    and u: "extract_windows padded kx ky = Inr unfolded"
    and d: "binary_op fl_sub unfolded (unsqueeze_last input) = Inr diff"
    using front_end [OF sh ks okx oky pos] by blast
  have "color_distance_sq cdt diff = Inl ValueError"
    using cdt by (simp add: color_distance_sq_def)
  then show ?thesis
    using sh sc ks unpack_2d_ks_Inr(5) [OF ks] p u d
    by (cases sc)
      (simp_all add: bilateral_blur_def after_def check_def KORNIA_CHECK_SHAPE_def)
qed

lemma blur_zero_division_error:
  assumes sh: "shape input = [B, C, H, W]"
    and ks: "unpack_2d_ks ks = Inr (kx, ky)"
    and okx: "pad_axis_ok bt W ((kx - 1) div 2) ((kx - 1) div 2)"
    and oky: "pad_axis_ok bt H ((ky - 1) div 2) ((ky - 1) div 2)"
    and pos: "0 < H" "0 < W"
    and cdt: "cdt = ''l1'' \<or> cdt = ''l2''"
  shows "bilateral_blur input ks (Scalar 0) ss bt cdt
       = ([Pad, Unfold, Diff, ColorDistance], Inl ZeroDivisionError)"
proof -
  obtain padded unfolded diff where
    p: "pad input ((kx - 1) div 2, (kx - 1) div 2, (ky - 1) div 2, (ky - 1) div 2) bt = Inr padded"
    and u: "extract_windows padded kx ky = Inr unfolded"
    and d: "binary_op fl_sub unfolded (unsqueeze_last input) = Inr diff"
      "shape diff = [B, C, H, W, ky * kx]"
    using front_end [OF sh ks okx oky pos] by blast
  obtain q where q: "color_distance_sq cdt diff = Inr q"
    using color_distance_sq_Inr [OF d(2) cdt] by blast
  have "color_kernel (Scalar 0) q = Inl ZeroDivisionError"
    by (simp add: color_kernel_def)
  then show ?thesis
    using sh ks unpack_2d_ks_Inr(5) [OF ks] p u d(1) q
    by (simp add: bilateral_blur_def after_def check_def KORNIA_CHECK_SHAPE_def)
qed

lemma blur_broadcast_error:
  assumes sh: "shape input = [B, C, H, W]"
    and t: "shape t = [n]" "n \<noteq> B" "n \<noteq> 1" "B \<noteq> 1"
    and ks: "unpack_2d_ks ks = Inr (kx, ky)"
    and okx: "pad_axis_ok bt W ((kx - 1) div 2) ((kx - 1) div 2)"
    and oky: "pad_axis_ok bt H ((ky - 1) div 2) ((ky - 1) div 2)"
    and pos: "0 < H" "0 < W"
    and cdt: "cdt = ''l1'' \<or> cdt = ''l2''"
  shows "bilateral_blur input ks (SigmaTensor t) ss bt cdt
       = ([Pad, Unfold, Diff, ColorDistance], Inl BroadcastError)"
proof -
  obtain padded unfolded diff where
    p: "pad input ((kx - 1) div 2, (kx - 1) div 2, (ky - 1) div 2, (ky - 1) div 2) bt = Inr padded"
    and u: "extract_windows padded kx ky = Inr unfolded"
    and d: "binary_op fl_sub unfolded (unsqueeze_last input) = Inr diff"
      "shape diff = [B, C, H, W, ky * kx]"
    using front_end [OF sh ks okx oky pos] by blast
  obtain q where q: "color_distance_sq cdt diff = Inr q" "shape q = [B, 1, H, W, ky * kx]"
    using color_distance_sq_Inr [OF d(2) cdt] by blast
  have "color_kernel (SigmaTensor t) q = Inl BroadcastError"
    using t q(2) by (simp add: color_kernel_def binary_op_def map_tensor_def view_batch_def)
  then show ?thesis
    using sh t(1) ks unpack_2d_ks_Inr(5) [OF ks] p u d(1) q(1)
    by (simp add: bilateral_blur_def after_def check_def KORNIA_CHECK_SHAPE_def)
qed

lemma after_error:
  "(\<And>x. \<exists>tr e. k x = (tr, Inl e)) \<Longrightarrow> \<exists>tr e. after d r k = (tr, Inl e)"
  by (cases r) (simp_all add: after_def)

lemma blur_invalid_distance_type_fails:
  assumes "cdt \<noteq> ''l1''" "cdt \<noteq> ''l2''"
  shows "\<exists>tr e. bilateral_blur input ks sc ss bt cdt = (tr, Inl e)"
proof -
  have c: "color_distance_sq cdt d = Inl ValueError" for d
    using assms by (simp add: color_distance_sq_def)
  show ?thesis
    unfolding bilateral_blur_def
    by (intro after_error) (auto simp add: split_def c after_def split: sum.splits)
qed


section \<open>Example inputs\<close>

lemma full_simps: "shape (full sh v) = sh" "elem (full sh v) idx = Fin v"
  by (simp_all add: full_def)

lemma unpack_KInt_1: "unpack_2d_ks (KInt 1) = Inr (1, 1)"
  by (simp add: unpack_2d_ks_def)

lemma unpack_KInt_3: "unpack_2d_ks (KInt 3) = Inr (3, 3)"
  by (simp add: unpack_2d_ks_def)

lemma unpack_invalid: "\<not> valid_kernel_size ks \<Longrightarrow> unpack_2d_ks ks = Inl KernelSizeError"
  by (auto simp add: valid_kernel_size_def unpack_2d_ks_def split: kernel_size.splits)


section \<open>The sign of a scalar sigma_color\<close>



section \<open>The filter over the reals\<close>

text \<open>
  On finite elements the operations on \<open>fl\<close> are those of the reals, and the values the
  filter computes are the formulas of the specification.
\<close>

lemma fl_sum_Fin: "fl_sum (map (\<lambda>k. Fin (f k)) xs) = Fin (sum_list (map f xs))"
  by (induction xs) simp_all

lemma sum_list_upt: "sum_list (map f [0..<n]) = (\<Sum>k<n. f k)"
  by (simp add: interv_sum_list_conv_sum_set_nat atLeast0LessThan)

lemma pad_source_range:
  assumes "pad_axis_ok mode n p p" "i < p + n + p" "pad_source mode n p i = Some j"
  shows "j < n"
  using assms
  by (auto simp add: pad_axis_ok_def pad_source_def split: if_splits)


lemma gaussian_kernel1d_pos: "0 < n \<Longrightarrow> 0 < gaussian_kernel1d n s i"
  unfolding gaussian_kernel1d_def gaussian_def
  by (intro divide_pos_pos sum_pos) (simp_all add: lessThan_empty_iff)

lemma spatial_weight_pos: "0 < kx \<Longrightarrow> 0 < ky \<Longrightarrow> 0 < spatial_weight (kx, ky) ss k"
  by (simp add: spatial_weight_def gaussian_kernel1d_pos)

lemma distance_at_real:
  assumes u: "\<And>c. c < C \<Longrightarrow> elem u [b, c, h, w, k] = Fin (N c)"
    and x: "\<And>c. c < C \<Longrightarrow> elem x [b, c, h, w] = Fin (X c)"
  shows "distance_at cdt C u x b h w k = Fin (spec_distance cdt C (\<lambda>c. N c - X c))"
  by (simp add: distance_at_def spec_distance_def u x fl_sub_def fl_square_def fl_sum_Fin
      sum_list_upt power2_eq_square cong: map_upt_cong)

lemma output_at_real:
  assumes u: "\<And>c k. c < C \<Longrightarrow> k < ky * kx \<Longrightarrow> elem u [b, c, h, w, k] = Fin (N c k)"
    and x: "\<And>c. c < C \<Longrightarrow> elem x [b, c, h, w] = Fin (X c)"
    and s: "coefficient sc b = Fin (- (1 / 2) / (sigma * sigma))"
    and pos: "0 < kx" "0 < ky"
    and c: "c < C"
  shows "output_at sc (kx, ky) ss cdt C u x b c h w =
     Fin (spec_output (ky * kx) (N c)
            (\<lambda>k. spec_color_weight (spec_distance cdt C (\<lambda>c. N c k - X c)) sigma
                 * spatial_weight (kx, ky) ss k))"
proof -
  let ?wt = "\<lambda>k. spec_color_weight (spec_distance cdt C (\<lambda>c. N c k - X c)) sigma
                 * spatial_weight (kx, ky) ss k"
  have w: "weight_at sc (kx, ky) ss cdt C u x b h w k = Fin (?wt k)" if "k < ky * kx" for k
    using distance_at_real [of C u b h w k "\<lambda>c. N c k" x X cdt] u x that
    by (simp add: weight_at_def s spec_color_weight_def power2_eq_square)
  have "0 < ?wt k" for k
    using pos by (simp add: spec_color_weight_def spatial_weight_pos)
  moreover have "0 < ky * kx" using pos by simp
  ultimately have "0 < (\<Sum>k<ky * kx. ?wt k)"
    by (intro sum_pos) (auto simp add: lessThan_empty_iff)
  then show ?thesis
    using c by (simp add: output_at_def w u fl_sum_Fin sum_list_upt spec_output_def cong: map_upt_cong)
qed

lemma fin_real: "is_finite v \<Longrightarrow> v = Fin (fl_real v)"
  by (cases v) simp_all

lemma valid_kernel_unpack:
  assumes "valid_kernel_size ks"
  shows "unpack_2d_ks ks = Inr (ks_pair ks)"
  using assms
  by (auto simp add: valid_kernel_size_def unpack_2d_ks_def ks_pair_def split: kernel_size.splits)

lemma valid_sigma_coefficient:
  assumes "valid_sigma_color B sc" "b < B"
  shows "coefficient sc b = Fin (- (1 / 2) / (sigma_at sc b * sigma_at sc b))"
proof (cases sc)
  case (Scalar s)
  then show ?thesis by (simp add: coefficient_def sigma_at_def)
next
  case (SigmaTensor t)
  then have "is_finite (elem t [b])" "0 < fl_real (elem t [b])"
    using assms by (simp_all add: valid_sigma_color_def)
  then show ?thesis
    using SigmaTensor by (cases "elem t [b]") (simp_all add: coefficient_def sigma_at_def fl_square_def)
qed

lemma valid_sigma_shape:
  assumes "valid_sigma_color B sc"
  shows "case sc of Scalar s \<Rightarrow> s \<noteq> 0 | SigmaTensor t \<Rightarrow> shape t = [B]"
  using assms by (auto simp add: valid_sigma_color_def split: sigma_color.splits)

lemma window_index:
  assumes "odd (ky::nat)" "0 < (kx::nat)" "h < (H::nat)" "k < ky * kx"
  shows "h + k div kx < (ky - 1) div 2 + H + (ky - 1) div 2"
proof -
  have "k div kx < ky"
    using assms(4) by (rule less_mult_imp_div_less)
  then show ?thesis
    using odd_pad_total [OF assms(1), of H] assms(3) by linarith
qed

lemma window_index_x:
  assumes "odd (kx::nat)" "0 < kx" "w < (W::nat)"
  shows "w + k mod kx < (kx - 1) div 2 + W + (kx - 1) div 2"
proof -
  have "k mod kx < kx" using assms(2) by simp
  then show ?thesis
    using odd_pad_total [OF assms(1), of W] assms(3) by linarith
qed

lemma window_sample_real:
  assumes sh: "shape input = [B, C, H, W]"
    and fin: "finite_image input"
    and k: "odd kx" "odd ky" "0 < kx" "0 < ky"
    and okx: "pad_axis_ok bt W ((kx - 1) div 2) ((kx - 1) div 2)"
    and oky: "pad_axis_ok bt H ((ky - 1) div 2) ((ky - 1) div 2)"
    and b: "b < B" "c < C" "h < H" "w < W" "k < ky * kx"
  shows "(case (pad_source bt H ((ky - 1) div 2) (h + k div kx),
                 pad_source bt W ((kx - 1) div 2) (w + k mod kx)) of
             (Some y, Some x) \<Rightarrow> elem input [b, c, y, x] | _ \<Rightarrow> Fin 0)
         = Fin (neighborhood bt (kx, ky) input b c h w k)"
proof (cases "pad_source bt H ((ky - 1) div 2) (h + k div kx)")
  case None
  then show ?thesis by (simp add: neighborhood_def sh)
next
  case y: (Some y)
  show ?thesis
  proof (cases "pad_source bt W ((kx - 1) div 2) (w + k mod kx)")
    case None
    then show ?thesis using y by (simp add: neighborhood_def sh)
  next
    case x: (Some x)
    have "y < H"
      using pad_source_range [OF oky window_index [OF k(2,3) b(3,5)] y] .
    moreover have "x < W"
      using pad_source_range [OF okx window_index_x [OF k(1,3) b(4)] x] .
    ultimately have "is_finite (elem input [b, c, y, x])"
      using fin b(1,2) by (simp add: finite_image_def sh)
    then show ?thesis
      using x y by (simp add: neighborhood_def sh pixel_def fin_real [symmetric])
  qed
qed

lemma pipeline_real:
  assumes sh: "shape input = [B, C, H, W]"
    and v: "valid_call input ks sc ss bt cdt"
    and kp: "ks_pair ks = (kx, ky)"
  shows "\<exists>padded unfolded out.
      pad input ((kx - 1) div 2, (kx - 1) div 2, (ky - 1) div 2, (ky - 1) div 2) bt = Inr padded
    \<and> extract_windows padded kx ky = Inr unfolded
    \<and> bilateral_blur input ks sc ss bt cdt = (full_trace, Inr out)
    \<and> shape unfolded = [B, C, H, W, ky * kx]
    \<and> shape out = [B, C, H, W]
    \<and> (\<forall>b c h w k. b < B \<longrightarrow> c < C \<longrightarrow> h < H \<longrightarrow> w < W \<longrightarrow> k < ky * kx \<longrightarrow>
          elem unfolded [b, c, h, w, k] = Fin (neighborhood bt (kx, ky) input b c h w k))
    \<and> (\<forall>b c h w. b < B \<longrightarrow> c < C \<longrightarrow> h < H \<longrightarrow> w < W \<longrightarrow>
          elem out [b, c, h, w] =
            Fin (spec_output (ky * kx) (neighborhood bt (kx, ky) input b c h w)
                   (\<lambda>k. spec_color_weight
                          (spec_distance cdt C
                             (\<lambda>c'. neighborhood bt (kx, ky) input b c' h w k - pixel input b c' h w))
                          (sigma_at sc b)
                        * spatial_weight (kx, ky) ss k)))"
proof -
  have ks: "unpack_2d_ks ks = Inr (kx, ky)"
    using v kp valid_kernel_unpack by (simp add: valid_call_def)
  note k = unpack_2d_ks_Inr [OF ks]
  have ok: "pad_axis_ok bt W ((kx - 1) div 2) ((kx - 1) div 2)"
    "pad_axis_ok bt H ((ky - 1) div 2) ((ky - 1) div 2)"
    using v kp sh by (simp_all add: valid_call_def padding_accepted_def)
  have pos: "0 < H" "0 < W" and cdt: "cdt = ''l1'' \<or> cdt = ''l2''"
    and fin: "finite_image input" and vs: "valid_sigma_color B sc"
    using v sh by (simp_all add: valid_call_def)
  obtain padded unfolded out where
    p: "pad input ((kx - 1) div 2, (kx - 1) div 2, (ky - 1) div 2, (ky - 1) div 2) bt = Inr padded"
    and u: "extract_windows padded kx ky = Inr unfolded"
    and r: "bilateral_blur input ks sc ss bt cdt = (full_trace, Inr out)"
    and s: "shape unfolded = [B, C, H, W, ky * kx]" "shape out = [B, C, H, W]"
    and ue: "\<And>b c h w k. elem unfolded [b, c, h, w, k] =
          (case (pad_source bt H ((ky - 1) div 2) (h + k div kx),
                 pad_source bt W ((kx - 1) div 2) (w + k mod kx)) of
             (Some y, Some x) \<Rightarrow> elem input [b, c, y, x] | _ \<Rightarrow> Fin 0)"
    and oe: "\<And>b c h w. b < B \<Longrightarrow> c < C \<Longrightarrow> h < H \<Longrightarrow> w < W \<Longrightarrow>
          elem out [b, c, h, w] = output_at sc (kx, ky) ss cdt C unfolded input b c h w"
    using pipeline [OF sh ks ok pos cdt valid_sigma_shape [OF vs], of ss] by blast
  have un: "elem unfolded [b, c, h, w, k] = Fin (neighborhood bt (kx, ky) input b c h w k)"
    if "b < B" "c < C" "h < H" "w < W" "k < ky * kx" for b c h w k
    unfolding ue using window_sample_real [OF sh fin k(1-4) ok that] .
  have px: "elem input [b, c, h, w] = Fin (pixel input b c h w)"
    if "b < B" "c < C" "h < H" "w < W" for b c h w
    using fin that by (simp add: finite_image_def sh pixel_def fin_real [symmetric])
  have val: "elem out [b, c, h, w] =
            Fin (spec_output (ky * kx) (neighborhood bt (kx, ky) input b c h w)
                   (\<lambda>k. spec_color_weight
                          (spec_distance cdt C
                             (\<lambda>c'. neighborhood bt (kx, ky) input b c' h w k - pixel input b c' h w))
                          (sigma_at sc b)
                        * spatial_weight (kx, ky) ss k))"
    if b: "b < B" "c < C" "h < H" "w < W" for b c h w
    unfolding oe [OF b]
    by (rule output_at_real [where N = "\<lambda>c k. neighborhood bt (kx, ky) input b c h w k"
          and X = "\<lambda>c. pixel input b c h w"])
       (simp_all add: un px b k valid_sigma_coefficient [OF vs])
  show ?thesis
    apply (rule exI [of _ padded], rule exI [of _ unfolded], rule exI [of _ out])
    using p u r s un val by simp
qed

lemma from_fun_simps: "shape (from_fun sh f) = sh" "elem (from_fun sh f) idx = Fin (f idx)"
  by (simp_all add: from_fun_def)

lemma ks_pair_simps: "ks_pair (KInt k) = (nat k, nat k)" "ks_pair (KPair a b) = (nat a, nat b)"
  by (simp_all add: ks_pair_def)

lemma valid_call_example:
  "valid_call (from_fun [1, 2, 3, 3] (\<lambda>idx. real (idx ! 1) + 2 * real (idx ! 2) + 3 * real (idx ! 3)))
     (KInt 3) (Scalar (1 / 10)) (3 / 2, 3 / 2) ''reflect'' ''l1''"
  by (simp add: valid_call_def from_fun_simps finite_image_def valid_kernel_size_def
      valid_sigma_color_def padding_accepted_def pad_axis_ok_def ks_pair_simps)


section \<open>Every returned output has the shape of the input\<close>

lemma blur_returns_shape:
  assumes sh: "shape input = [B, C, H, W]"
    and sc: "case sc of Scalar s \<Rightarrow> True | SigmaTensor t \<Rightarrow> shape t = [B]"
    and r: "bilateral_blur input ks sc ss bt cdt = (tr, Inr out)"
  shows "shape out = [B, C, H, W]"
proof (cases "unpack_2d_ks ks")
  case (Inl e)
  then show ?thesis
    using blur_kernel_size_error [of ks e input sc ss bt cdt] r by auto
next
  case (Inr p)
  obtain kx ky where ks: "unpack_2d_ks ks = Inr (kx, ky)"
    using Inr by (cases p) auto
  have rank: "case sc of Scalar s \<Rightarrow> True | SigmaTensor t \<Rightarrow> length (shape t) = 1"
    using sc by (auto split: sigma_color.splits)
  have ok: "pad_axis_ok bt W ((kx - 1) div 2) ((kx - 1) div 2)"
      "pad_axis_ok bt H ((ky - 1) div 2) ((ky - 1) div 2)"
    using blur_pad_error [OF sh rank ks, of bt ss cdt] r by auto
  have "\<not> (H = 0 \<or> W = 0)"
  proof
    assume "H = 0 \<or> W = 0"
    from blur_unfold_error [OF sh rank ks ok this, of ss cdt] r show False by simp
  qed
  then have pos: "0 < H" "0 < W"
    by simp_all
  have cdt: "cdt = ''l1'' \<or> cdt = ''l2''"
    using blur_value_error [OF sh rank ks ok pos, of cdt ss] r by auto
  have nz: "case sc of Scalar s \<Rightarrow> s \<noteq> 0 | SigmaTensor t \<Rightarrow> shape t = [B]"
    using blur_zero_division_error [OF sh ks ok pos cdt, of ss] r sc
    by (auto split: sigma_color.splits)
  show ?thesis
    using pipeline [OF sh ks ok pos cdt nz, of ss] r by auto
qed


section \<open>Spatially constant images\<close>







section \<open>Division by zero\<close>



section \<open>A sigma_color vector that is broadcast\<close>

lemma color_kernel_broadcast:
  assumes "shape t = [n]" "shape q = [B, 1, H, W, K]" "n = 1 \<or> B = 1"
  shows "\<exists>e. color_kernel (SigmaTensor t) q = Inr e
           \<and> shape e = [if B = 1 then n else B, 1, H, W, K]"
  using assms
  by (auto simp add: color_kernel_def map_tensor_def binary_op_def view_batch_def
        broadcast_simps simp del: broadcast_shapes.simps(2))

lemma aggregate_broadcast:
  assumes "shape u = [B, C, H, W, K]" "shape kn = [if B = 1 then n else B, 1, H, W, K]"
  shows "\<exists>out. aggregate u kn = Inr out \<and> shape out = [if B = 1 then n else B, C, H, W]"
  using assms
  by (auto simp add: aggregate_def binary_op_def sum_last_def
        broadcast_simps simp del: broadcast_shapes.simps(2))

lemma pipeline_broadcast:
  assumes sh: "shape input = [B, C, H, W]"
    and ks: "unpack_2d_ks ks = Inr (kx, ky)"
    and okx: "pad_axis_ok bt W ((kx - 1) div 2) ((kx - 1) div 2)"
    and oky: "pad_axis_ok bt H ((ky - 1) div 2) ((ky - 1) div 2)"
    and pos: "0 < H" "0 < W"
    and cdt: "cdt = ''l1'' \<or> cdt = ''l2''"
    and t: "shape t = [n]" "n = 1 \<or> B = 1"
  shows "\<exists>out. bilateral_blur input ks (SigmaTensor t) ss bt cdt = (full_trace, Inr out)
           \<and> shape out = [if B = 1 then n else B, C, H, W]"
proof -
  let ?K = "ky * kx"
  obtain padded unfolded diff where
    p: "pad input ((kx - 1) div 2, (kx - 1) div 2, (ky - 1) div 2, (ky - 1) div 2) bt = Inr padded"
    and u: "extract_windows padded kx ky = Inr unfolded" "shape unfolded = [B, C, H, W, ?K]"
    and d: "binary_op fl_sub unfolded (unsqueeze_last input) = Inr diff" "shape diff = [B, C, H, W, ?K]"
    using front_end [OF sh ks okx oky pos] by blast
  obtain q where q: "color_distance_sq cdt diff = Inr q" "shape q = [B, 1, H, W, ?K]"
    using color_distance_sq_Inr [OF d(2) cdt] by blast
  obtain e where e: "color_kernel (SigmaTensor t) q = Inr e"
    "shape e = [if B = 1 then n else B, 1, H, W, ?K]"
    using color_kernel_broadcast [OF t(1) q(2) t(2)] by blast
  obtain kn where kn: "binary_op fl_mul (view_kernel (get_gaussian_kernel2d (kx, ky) ss) (kx * ky)) e = Inr kn"
    "shape kn = [if B = 1 then n else B, 1, H, W, ?K]"
    using space_kernel_mul [OF e(2), of ss] by blast
  obtain out where out: "aggregate unfolded kn = Inr out" "shape out = [if B = 1 then n else B, C, H, W]"
    using aggregate_broadcast [OF u(2) kn(2)] by blast
  have "bilateral_blur input ks (SigmaTensor t) ss bt cdt = (full_trace, Inr out)"
    using sh t(1) ks unpack_2d_ks_Inr(5) [OF ks] p u(1) d(1) q(1) e(1) kn(1) out(1)
    by (simp add: bilateral_blur_def after_def check_def KORNIA_CHECK_SHAPE_def full_trace_def)
  then show ?thesis
    using out(2) by blast
qed


section \<open>A zero entry in a sigma_color vector\<close>








section \<open>The module and the function\<close>

text \<open>
  C8. Applying a \<open>BilateralBlur\<close> object built from a configuration gives, for every
  image, the result of calling \<open>bilateral_blur\<close> with that image and configuration.
\<close>

theorem forward_is_bilateral_blur:
  "forward (init ks sc ss bt cdt) input = bilateral_blur input ks sc ss bt cdt"
  by (simp add: forward_def init_def)


section \<open>Rejected calls\<close>

text \<open>
  C1, as the code has it. A call with a distance type other than \<open>l1\<close> and \<open>l2\<close>
  always ends in an error. When the shape checks, the kernel-size check, the padding and
  the window extraction succeed, that error is the \<open>ValueError\<close> of the distance type,
  and it is raised after the padding, the window extraction and the differences have been
  computed.
\<close>

theorem invalid_distance_type_rejected_after_differences:
  assumes "cdt \<noteq> ''l1''" "cdt \<noteq> ''l2''"
  shows "(\<exists>tr e. bilateral_blur input ks sc ss bt cdt = (tr, Inl e))
     \<and> (shape input = [B, C, H, W] \<and> 0 < H \<and> 0 < W \<and> sigma_rank_ok sc
          \<and> unpack_2d_ks ks = Inr (kx, ky) \<and> padding_accepted bt (H, W) (kx, ky)
        \<longrightarrow> bilateral_blur input ks sc ss bt cdt = ([Pad, Unfold, Diff], Inl ValueError))"
  using blur_invalid_distance_type_fails [OF assms]
    blur_value_error [of input B C H W sc ks kx ky bt cdt ss] assms
  by (auto simp add: sigma_rank_ok_def padding_accepted_def)

theorem invalid_distance_type_witness:
  "''l3'' \<noteq> ''l1'' \<and> ''l3'' \<noteq> ''l2''
   \<and> bilateral_blur (full [2, 3, 4, 5] 1) (KInt 3) (Scalar 1) (1, 1) ''reflect'' ''l3''
       = ([Pad, Unfold, Diff], Inl ValueError)"
  using invalid_distance_type_rejected_after_differences
    [of "''l3''" "full [2, 3, 4, 5] 1" "KInt 3" "Scalar 1" "(1, 1)" "''reflect''" 2 3 4 5 3 3]
  by (simp add: full_simps sigma_rank_ok_def unpack_KInt_3 padding_accepted_def pad_axis_ok_def)

text \<open>
  C1 as stated fails: on a one-pixel image the rejection comes after three array
  computations.
\<close>

theorem invalid_distance_type_counterexample:
  "bilateral_blur (full [1, 1, 1, 1] 0) (KInt 1) (Scalar 1) (1, 1) ''reflect'' ''l3''
     = ([Pad, Unfold, Diff], Inl ValueError)"
  using blur_value_error [of "full [1, 1, 1, 1] 0" 1 1 1 1 "Scalar 1" "KInt 1" 1 1 "''reflect''" "''l3''" "(1, 1)"]
  by (simp add: full_simps unpack_KInt_1 pad_axis_ok_def)

text \<open>
  C2, as the code has it. The check of a \<open>sigma_color\<close> tensor sees that tensor alone:
  a tensor that does not have exactly one axis is rejected before any array computation,
  and the length of a vector is not compared with the batch size \<open>B\<close> of the image. For a
  call that is valid otherwise, a vector of length 1 is accepted and broadcast over the
  batch (and for \<open>B = 1\<close> a vector of any length is accepted, its length becoming the
  batch size of the output); a vector of any other length different from \<open>B\<close> ends the call
  in the array library's broadcasting error, after the padding, the windows, the
  differences and the distances have been computed.
\<close>

theorem sigma_color_vector_not_matched_to_batch:
  assumes "shape input = [B, C, H, W]" "0 < H" "0 < W"
    and "unpack_2d_ks ks = Inr (kx, ky)" "padding_accepted bt (H, W) (kx, ky)"
    and "cdt = ''l1'' \<or> cdt = ''l2''"
  shows "(length (shape t) \<noteq> 1 \<longrightarrow>
            bilateral_blur input ks (SigmaTensor t) ss bt cdt = ([], Inl ShapeError))
     \<and> (shape t = [n] \<and> n \<noteq> B \<and> n \<noteq> 1 \<and> B \<noteq> 1 \<longrightarrow>
            bilateral_blur input ks (SigmaTensor t) ss bt cdt
              = ([Pad, Unfold, Diff, ColorDistance], Inl BroadcastError))
     \<and> (shape t = [n] \<and> (n = 1 \<or> B = 1) \<longrightarrow>
            (\<exists>out. bilateral_blur input ks (SigmaTensor t) ss bt cdt = (full_trace, Inr out)
                 \<and> shape out = [if B = 1 then n else B, C, H, W]))"
proof -
  have ok: "pad_axis_ok bt W ((kx - 1) div 2) ((kx - 1) div 2)"
    "pad_axis_ok bt H ((ky - 1) div 2) ((ky - 1) div 2)"
    using assms(5) by (simp_all add: padding_accepted_def)
  have a: "bilateral_blur input ks (SigmaTensor t) ss bt cdt = ([], Inl ShapeError)"
    if "length (shape t) \<noteq> 1"
    using blur_sigma_shape_error [OF _ that, of input ks ss bt cdt] assms(1) by simp
  have b: "bilateral_blur input ks (SigmaTensor t) ss bt cdt
              = ([Pad, Unfold, Diff, ColorDistance], Inl BroadcastError)"
    if "shape t = [n]" "n \<noteq> B" "n \<noteq> 1" "B \<noteq> 1"
    using blur_broadcast_error [OF assms(1) that assms(4) ok assms(2,3,6)] .
  have c: "\<exists>out. bilateral_blur input ks (SigmaTensor t) ss bt cdt = (full_trace, Inr out)
                 \<and> shape out = [if B = 1 then n else B, C, H, W]"
    if "shape t = [n]" "n = 1 \<or> B = 1"
    using pipeline_broadcast [OF assms(1,4) ok assms(2,3,6) that] .
  show ?thesis
    using a b c by blast
qed

theorem sigma_color_vector_witness:
  "bilateral_blur (full [2, 3, 4, 5] 1) (KInt 3) (SigmaTensor (full [2, 2] 1)) (1, 1) ''reflect'' ''l1''
     = ([], Inl ShapeError)
   \<and> bilateral_blur (full [2, 3, 4, 5] 1) (KInt 3) (SigmaTensor (full [3] 1)) (1, 1) ''reflect'' ''l1''
     = ([Pad, Unfold, Diff, ColorDistance], Inl BroadcastError)
   \<and> (\<exists>out. bilateral_blur (full [2, 3, 4, 5] 1) (KInt 3) (SigmaTensor (full [1] 1)) (1, 1)
               ''reflect'' ''l1'' = (full_trace, Inr out)
          \<and> shape out = [2, 3, 4, 5])"
proof -
  note th = sigma_color_vector_not_matched_to_batch
      [of "full [2, 3, 4, 5] 1" 2 3 4 5 "KInt 3" 3 3 "''reflect''" "''l1''", simplified full_simps]
  have h: "unpack_2d_ks (KInt 3) = Inr (3, 3)" "padding_accepted ''reflect'' (4, 5) (3, 3)"
    by (simp_all add: unpack_KInt_3 padding_accepted_def pad_axis_ok_def)
  show ?thesis
    using th [OF _ _ _ h, of "full [2, 2] 1" "(1, 1)" 0]
      th [OF _ _ _ h, of "full [3] 1" "(1, 1)" 3]
      th [OF _ _ _ h, of "full [1] 1" "(1, 1)" 1]
    by (simp add: full_simps)
qed

text \<open>
  C2 as stated fails: for a batch of two images a \<open>sigma_color\<close> vector of length 1 raises
  nothing, and the call runs all its array computations and returns.
\<close>

theorem sigma_color_length_counterexample:
  "fst (bilateral_blur (full [2, 1, 1, 1] 0) (KInt 1) (SigmaTensor (full [1] 1)) (1, 1)
          ''reflect'' ''l1'') = full_trace
   \<and> \<not> isl (snd (bilateral_blur (full [2, 1, 1, 1] 0) (KInt 1) (SigmaTensor (full [1] 1)) (1, 1)
          ''reflect'' ''l1''))"
  using pipeline_broadcast [of "full [2, 1, 1, 1] 0" 2 1 1 1 "KInt 1" 1 1 "''reflect''" "''l1''"
      "full [1] 1" 1 "(1, 1)"]
  by (auto simp add: full_simps unpack_KInt_1 pad_axis_ok_def)

text \<open>
  C9. A call whose kernel size has an even or a non-positive component ends in a
  validation error.
\<close>

theorem invalid_kernel_size_rejected:
  assumes "\<not> valid_kernel_size ks"
  shows "\<exists>tr e. bilateral_blur input ks sc ss bt cdt = (tr, Inl e) \<and> is_validation_error e"
  using blur_kernel_size_error [OF unpack_invalid [OF assms], of input sc ss bt cdt] by auto

theorem invalid_kernel_size_witness:
  "\<not> valid_kernel_size (KPair 3 4)
   \<and> (\<exists>tr e. bilateral_blur (full [1, 1, 5, 5] 0) (KPair 3 4) (Scalar 1) (1, 1) ''reflect'' ''l1''
            = (tr, Inl e) \<and> is_validation_error e)"
  using invalid_kernel_size_rejected [of "KPair 3 4" "full [1, 1, 5, 5] 0" "Scalar 1" "(1, 1)" "''reflect''" "''l1''"]
  by (simp add: valid_kernel_size_def)





section \<open>The value of the output\<close>

text \<open>
  C4. For every valid call the filter returns, and each output pixel is the weighted sum
  of the \<open>kx * ky\<close> samples of its window divided by the sum of the weights, where the
  weight of sample \<open>k\<close> at \<open>(b, h, w)\<close> is \<open>exp (-0.5 * distance / sigma_color(b)\<^sup>2)\<close> times the
  spatial weight of offset \<open>k\<close>. The samples are the elements of the extracted windows.
  Arithmetic is exact.
\<close>

theorem output_is_normalized_weighted_sum:
  assumes "shape input = [B, C, H, W]"
    and "valid_call input ks sc ss bt cdt"
    and "ks_pair ks = (kx, ky)"
  shows "\<exists>padded unfolded out.
      pad input ((kx - 1) div 2, (kx - 1) div 2, (ky - 1) div 2, (ky - 1) div 2) bt = Inr padded
    \<and> extract_windows padded kx ky = Inr unfolded
    \<and> bilateral_blur input ks sc ss bt cdt = (full_trace, Inr out)
    \<and> (\<forall>b c h w k. b < B \<longrightarrow> c < C \<longrightarrow> h < H \<longrightarrow> w < W \<longrightarrow> k < ky * kx \<longrightarrow>
          elem unfolded [b, c, h, w, k] = Fin (neighborhood bt (kx, ky) input b c h w k))
    \<and> (\<forall>b c h w. b < B \<longrightarrow> c < C \<longrightarrow> h < H \<longrightarrow> w < W \<longrightarrow>
          elem out [b, c, h, w] =
            Fin (spec_output (ky * kx) (neighborhood bt (kx, ky) input b c h w)
                   (\<lambda>k. spec_color_weight
                          (spec_distance cdt C
                             (\<lambda>c'. neighborhood bt (kx, ky) input b c' h w k - pixel input b c' h w))
                          (sigma_at sc b)
                        * spatial_weight (kx, ky) ss k)))"
  using pipeline_real [OF assms] by blast

theorem output_is_normalized_weighted_sum_witness:
  "\<exists>padded unfolded out.
      pad (from_fun [1, 2, 3, 3] (\<lambda>idx. real (idx ! 1) + 2 * real (idx ! 2) + 3 * real (idx ! 3)))
        (1, 1, 1, 1) ''reflect'' = Inr padded
    \<and> extract_windows padded 3 3 = Inr unfolded
    \<and> bilateral_blur (from_fun [1, 2, 3, 3] (\<lambda>idx. real (idx ! 1) + 2 * real (idx ! 2) + 3 * real (idx ! 3)))
        (KInt 3) (Scalar (1 / 10)) (3 / 2, 3 / 2) ''reflect'' ''l1'' = (full_trace, Inr out)
    \<and> elem unfolded [0, 1, 2, 2, 0] = Fin 6
    \<and> elem out [0, 1, 2, 2] =
        Fin (spec_output 9
               (neighborhood ''reflect'' (3, 3)
                  (from_fun [1, 2, 3, 3] (\<lambda>idx. real (idx ! 1) + 2 * real (idx ! 2) + 3 * real (idx ! 3)))
                  0 1 2 2)
               (\<lambda>k. spec_color_weight
                      (spec_distance ''l1'' 2
                         (\<lambda>c'. neighborhood ''reflect'' (3, 3)
                                 (from_fun [1, 2, 3, 3] (\<lambda>idx. real (idx ! 1) + 2 * real (idx ! 2) + 3 * real (idx ! 3)))
                                 0 c' 2 2 k
                               - pixel (from_fun [1, 2, 3, 3] (\<lambda>idx. real (idx ! 1) + 2 * real (idx ! 2) + 3 * real (idx ! 3)))
                                   0 c' 2 2))
                      (1 / 10)
                    * spatial_weight (3, 3) (3 / 2, 3 / 2) k))"
proof -
  let ?img = "from_fun [1, 2, 3, 3] (\<lambda>idx. real (idx ! 1) + 2 * real (idx ! 2) + 3 * real (idx ! 3))"
  have n: "neighborhood ''reflect'' (3, 3) ?img 0 1 2 2 0 = 6"
    by (simp add: neighborhood_def pad_source_def from_fun_simps pixel_def)
  obtain padded unfolded out where f:
    "pad ?img ((3 - 1) div 2, (3 - 1) div 2, (3 - 1) div 2, (3 - 1) div 2) ''reflect'' = Inr padded"
    "extract_windows padded 3 3 = Inr unfolded"
    "bilateral_blur ?img (KInt 3) (Scalar (1 / 10)) (3 / 2, 3 / 2) ''reflect'' ''l1'' = (full_trace, Inr out)"
    "\<forall>b c h w k. b < 1 \<longrightarrow> c < 2 \<longrightarrow> h < 3 \<longrightarrow> w < 3 \<longrightarrow> k < 3 * 3 \<longrightarrow>
          elem unfolded [b, c, h, w, k] = Fin (neighborhood ''reflect'' (3, 3) ?img b c h w k)"
    "\<forall>b c h w. b < 1 \<longrightarrow> c < 2 \<longrightarrow> h < 3 \<longrightarrow> w < 3 \<longrightarrow>
          elem out [b, c, h, w] =
            Fin (spec_output (3 * 3) (neighborhood ''reflect'' (3, 3) ?img b c h w)
                   (\<lambda>k. spec_color_weight
                          (spec_distance ''l1'' 2
                             (\<lambda>c'. neighborhood ''reflect'' (3, 3) ?img b c' h w k - pixel ?img b c' h w))
                          (sigma_at (Scalar (1 / 10)) b)
                        * spatial_weight (3, 3) (3 / 2, 3 / 2) k))"
    using output_is_normalized_weighted_sum [of ?img 1 2 3 3 "KInt 3" "Scalar (1 / 10)" "(3 / 2, 3 / 2)"
        "''reflect''" "''l1''" 3 3]
      valid_call_example
    by (auto simp add: from_fun_simps ks_pair_simps)
  show ?thesis
    apply (rule exI [of _ padded], rule exI [of _ unfolded], rule exI [of _ out])
    using f n by (simp add: sigma_at_def)
qed


section \<open>The color distance\<close>

text \<open>
  C5. For finite window samples and pixels, the differences are sample minus center
  pixel, and the color distance of a window sample is \<open>(\<Sum>c. |d c|)\<^sup>2\<close> for the distance type
  \<open>l1\<close> and \<open>\<Sum>c. (d c)\<^sup>2\<close> for \<open>l2\<close>, where \<open>d c\<close> is the difference in channel \<open>c\<close>.
  Arithmetic is exact.
\<close>

theorem color_distance_l1_l2:
  assumes "shape unfolded = [B, C, H, W, K]" "shape input = [B, C, H, W]"
    and "\<forall>b c h w k. b < B \<longrightarrow> c < C \<longrightarrow> h < H \<longrightarrow> w < W \<longrightarrow> k < K \<longrightarrow>
           elem unfolded [b, c, h, w, k] = Fin (N b c h w k)"
    and "\<forall>b c h w. b < B \<longrightarrow> c < C \<longrightarrow> h < H \<longrightarrow> w < W \<longrightarrow>
           elem input [b, c, h, w] = Fin (X b c h w)"
  shows "\<exists>diff l1 l2.
      binary_op fl_sub unfolded (unsqueeze_last input) = Inr diff
    \<and> color_distance_sq ''l1'' diff = Inr l1
    \<and> color_distance_sq ''l2'' diff = Inr l2
    \<and> (\<forall>b h w k. b < B \<longrightarrow> h < H \<longrightarrow> w < W \<longrightarrow> k < K \<longrightarrow>
          (\<forall>c<C. elem diff [b, c, h, w, k] = Fin (N b c h w k - X b c h w))
        \<and> elem l1 [b, 0, h, w, k] = Fin ((\<Sum>c<C. \<bar>N b c h w k - X b c h w\<bar>)\<^sup>2)
        \<and> elem l2 [b, 0, h, w, k] = Fin (\<Sum>c<C. (N b c h w k - X b c h w)\<^sup>2))"
proof -
  obtain diff where d: "binary_op fl_sub unfolded (unsqueeze_last input) = Inr diff"
    "shape diff = [B, C, H, W, K]"
    and de: "\<And>b c h w k. b < B \<Longrightarrow> c < C \<Longrightarrow> h < H \<Longrightarrow> w < W \<Longrightarrow> k < K \<Longrightarrow>
       elem diff [b, c, h, w, k] = fl_sub (elem unfolded [b, c, h, w, k]) (elem input [b, c, h, w])"
    using binary_op_same_prefix [OF assms(1,2), of fl_sub] by blast
  have dr: "elem diff [b, c, h, w, k] = Fin (N b c h w k - X b c h w)"
    if "b < B" "c < C" "h < H" "w < W" "k < K" for b c h w k
    using that assms(3,4) by (simp add: de fl_sub_def)
  obtain l1 where l1: "color_distance_sq ''l1'' diff = Inr l1"
    and l1e: "\<And>b h w k. elem l1 [b, 0, h, w, k] =
          fl_square (fl_sum (map (\<lambda>c. fl_abs (elem diff [b, c, h, w, k])) [0..<C]))"
    using color_distance_sq_Inr [OF d(2), of "''l1''"] by auto
  obtain l2 where l2: "color_distance_sq ''l2'' diff = Inr l2"
    and l2e: "\<And>b h w k. elem l2 [b, 0, h, w, k] =
          fl_sum (map (\<lambda>c. fl_square (elem diff [b, c, h, w, k])) [0..<C])"
    using color_distance_sq_Inr [OF d(2), of "''l2''"] by auto
  have "elem l1 [b, 0, h, w, k] = Fin ((\<Sum>c<C. \<bar>N b c h w k - X b c h w\<bar>)\<^sup>2)"
    "elem l2 [b, 0, h, w, k] = Fin (\<Sum>c<C. (N b c h w k - X b c h w)\<^sup>2)"
    if "b < B" "h < H" "w < W" "k < K" for b h w k
    using that
    by (simp_all add: l1e l2e dr fl_square_def fl_sum_Fin sum_list_upt power2_eq_square
        cong: map_upt_cong)
  then show ?thesis
    using d(1) l1 l2 dr by auto
qed

theorem color_distance_l1_l2_witness:
  "\<exists>diff l1 l2.
      binary_op fl_sub (from_fun [1, 3, 1, 1, 2] (\<lambda>idx. real (idx ! 1) + 4 * real (idx ! 4)))
        (unsqueeze_last (full [1, 3, 1, 1] 2)) = Inr diff
    \<and> color_distance_sq ''l1'' diff = Inr l1
    \<and> color_distance_sq ''l2'' diff = Inr l2
    \<and> elem diff [0, 0, 0, 0, 1] = Fin 2
    \<and> elem diff [0, 1, 0, 0, 1] = Fin 3
    \<and> elem diff [0, 2, 0, 0, 1] = Fin 4
    \<and> elem l1 [0, 0, 0, 0, 1] = Fin 81
    \<and> elem l2 [0, 0, 0, 0, 1] = Fin 29
    \<and> elem l1 [0, 0, 0, 0, 0] = Fin 9
    \<and> elem l2 [0, 0, 0, 0, 0] = Fin 5"
proof -
  obtain diff l1 l2 where f:
    "binary_op fl_sub (from_fun [1, 3, 1, 1, 2] (\<lambda>idx. real (idx ! 1) + 4 * real (idx ! 4)))
        (unsqueeze_last (full [1, 3, 1, 1] 2)) = Inr diff"
    "color_distance_sq ''l1'' diff = Inr l1"
    "color_distance_sq ''l2'' diff = Inr l2"
    "\<forall>b h w k. b < 1 \<longrightarrow> h < 1 \<longrightarrow> w < 1 \<longrightarrow> k < 2 \<longrightarrow>
          (\<forall>c<3. elem diff [b, c, h, w, k] = Fin (real c + 4 * real k - 2))
        \<and> elem l1 [b, 0, h, w, k] = Fin ((\<Sum>c<3. \<bar>real c + 4 * real k - 2\<bar>)\<^sup>2)
        \<and> elem l2 [b, 0, h, w, k] = Fin (\<Sum>c<3. (real c + 4 * real k - 2)\<^sup>2)"
    using color_distance_l1_l2 [of "from_fun [1, 3, 1, 1, 2] (\<lambda>idx. real (idx ! 1) + 4 * real (idx ! 4))"
        1 3 1 1 2 "full [1, 3, 1, 1] 2" "\<lambda>b c h w k. real c + 4 * real k" "\<lambda>b c h w. 2"]
    by (auto simp add: from_fun_simps full_simps)
  have s: "{..<3::nat} = {0, 1, 2}" by auto
  show ?thesis
    apply (rule exI [of _ diff], rule exI [of _ l1], rule exI [of _ l2])
    using f by (simp add: s)
qed


section \<open>The shape of the output\<close>

text \<open>
  C7. For an image of shape \<open>(B, C, H, W)\<close> and a \<open>sigma_color\<close> that is a number or a
  vector of length \<open>B\<close>, every output the filter returns has the shape of the input; and
  for every valid call the filter does return an output.
\<close>

theorem output_shape:
  assumes "length (shape input) = 4"
    and "case sc of Scalar s \<Rightarrow> True | SigmaTensor t \<Rightarrow> shape t = [shape input ! 0]"
  shows "(\<forall>tr out. bilateral_blur input ks sc ss bt cdt = (tr, Inr out) \<longrightarrow> shape out = shape input)
     \<and> (valid_call input ks sc ss bt cdt \<longrightarrow>
          (\<exists>out. bilateral_blur input ks sc ss bt cdt = (full_trace, Inr out)
                 \<and> shape out = shape input))"
proof -
  obtain B C H W where sh: "shape input = [B, C, H, W]"
    using assms(1) by (auto simp add: length_Suc_conv numeral_eq_Suc)
  have sc: "case sc of Scalar s \<Rightarrow> True | SigmaTensor t \<Rightarrow> shape t = [B]"
    using assms(2) by (cases sc) (simp_all add: sh)
  have a: "shape out = shape input"
    if "bilateral_blur input ks sc ss bt cdt = (tr, Inr out)" for tr out
    using blur_returns_shape [OF sh sc that] by (simp add: sh)
  have b: "\<exists>out. bilateral_blur input ks sc ss bt cdt = (full_trace, Inr out) \<and> shape out = shape input"
    if v: "valid_call input ks sc ss bt cdt"
  proof -
    obtain kx ky where "ks_pair ks = (kx, ky)" by (cases "ks_pair ks") auto
    from pipeline_real [OF sh v this] show ?thesis using sh by auto
  qed
  show ?thesis using a b by blast
qed

theorem output_shape_witness:
  "\<exists>out. bilateral_blur (full [2, 4, 5, 5] (1 / 2)) (KPair 3 3) (Scalar (1 / 10)) (3 / 2, 3 / 2)
            ''reflect'' ''l1'' = (full_trace, Inr out)
       \<and> shape out = [2, 4, 5, 5]"
proof -
  have v: "valid_call (full [2, 4, 5, 5] (1 / 2)) (KPair 3 3) (Scalar (1 / 10)) (3 / 2, 3 / 2)
            ''reflect'' ''l1''"
    by (simp add: valid_call_def full_simps finite_image_def valid_kernel_size_def
        valid_sigma_color_def padding_accepted_def pad_axis_ok_def ks_pair_simps)
  show ?thesis
    using output_shape [of "full [2, 4, 5, 5] (1 / 2)" "Scalar (1 / 10)" "KPair 3 3" "(3 / 2, 3 / 2)"
        "''reflect''" "''l1''"] v
    by (simp add: full_simps)
qed


section \<open>Spatially constant images\<close>





section \<open>A zero sum of weights\<close>



end
